theory Spec2Isabelle
  imports Complex_Main
begin

section \<open>Numbers, errors and parameter dictionaries\<close>

text \<open>
  The notebooks compute with Python floats (IEEE 754 binary64) held in pandas series and
  numpy arrays.  A float is modelled as a real number or the missing value \<open>NaN\<close>;
  every non-finite float (nan, inf) is the one value \<open>NaN\<close>.
\<close>

datatype num = Val (val: real) | NaN

text \<open>
  Addition, subtraction, multiplication and division of floats give the exact result
  rounded to the nearest binary64 number, a tie going to the even significand.  A
  number \<open>x\<close> with \<open>2^e \<le> |x| < 2^(e+1)\<close> is rounded to a multiple of \<open>2^(e-52)\<close>.
  The range of the exponent is not bounded in the model: overflow and gradual
  underflow are left out.  The functions of the libraries (\<open>log\<close>, \<open>exp\<close>, the normal
  density, the regression) are taken exact.
\<close>

definition binade :: "real \<Rightarrow> int" where
  "binade x = \<lfloor>log 2 \<bar>x\<bar>\<rfloor>"

definition round_even :: "real \<Rightarrow> int" where
  "round_even y =
     (let f = \<lfloor>y\<rfloor>; r = y - of_int f
      in if r < 1/2 then f else if 1/2 < r then f + 1 else if even f then f else f + 1)"

definition round64 :: "real \<Rightarrow> real" where
  "round64 x =
     (if x = 0 then 0
      else let q = 2 powi (binade x - 52) in of_int (round_even (x / q)) * q)"

text \<open>A sum of floats, added from left to right.\<close>

definition float_sum :: "real list \<Rightarrow> real" where
  "float_sum vs = foldl (\<lambda>s v. round64 (s + v)) 0 vs"

datatype error =
    KeyError string
  | AssertionError string
  | AttributeError
  | IndexError
  | ValueError

type_synonym params = "string \<rightharpoonup> num"

section \<open>Notebook 6: the parameter vector of the likelihood\<close>

text \<open>\<^verbatim>\<open>keys = ['g', 'n', 's', 'alpha', 'delta', 'sigma', 'sigma_eps']\<close>\<close>

definition keys :: "string list" where
  "keys = [''g'', ''n'', ''s'', ''alpha'', ''delta'', ''sigma'', ''sigma_eps'']"

text \<open>\<^verbatim>\<open>params = dict(zip(keys, array))\<close>: zip stops at the shorter of the two.\<close>

definition array_to_params :: "num list \<Rightarrow> params" where
  "array_to_params array = map_of (zip keys array)"

text \<open>
  \<^verbatim>\<open>g = params['g']; ...; return np.array([g, n, s, alpha, delta, sigma, sigma_eps])\<close>:
  the first missing key raises KeyError.
\<close>

definition params_to_array :: "params \<Rightarrow> error + num list" where
  "params_to_array p =
     (case p ''g'' of None \<Rightarrow> Inl (KeyError ''g'') | Some g \<Rightarrow>
      case p ''n'' of None \<Rightarrow> Inl (KeyError ''n'') | Some n \<Rightarrow>
      case p ''s'' of None \<Rightarrow> Inl (KeyError ''s'') | Some s \<Rightarrow>
      case p ''alpha'' of None \<Rightarrow> Inl (KeyError ''alpha'') | Some alpha \<Rightarrow>
      case p ''delta'' of None \<Rightarrow> Inl (KeyError ''delta'') | Some delta \<Rightarrow>
      case p ''sigma'' of None \<Rightarrow> Inl (KeyError ''sigma'') | Some sigma \<Rightarrow>
      case p ''sigma_eps'' of None \<Rightarrow> Inl (KeyError ''sigma_eps'') | Some sigma_eps \<Rightarrow>
      Inr [g, n, s, alpha, delta, sigma, sigma_eps])"

section \<open>Notebook 1: production functions and the equation of motion\<close>

text \<open>
  The notebook builds the two production functions as symbolic expressions in the
  variables \<open>A, K, L\<close> and the parameters \<open>alpha, sigma\<close>:
  \<^verbatim>\<open>
  cobb_douglas_output = K**alpha * (A * L)**(1 - alpha)
  rho = (sigma - 1) / sigma
  ces_output = (alpha * K**rho + (1 - alpha) * (A * L)**rho)**(1 / rho)
  \<close>
  The expressions are modelled for positive capital and effective labour, on which the
  symbolic power is the real power \<open>powr\<close>.  A division by zero leaves an expression without a value
  (\<open>NaN\<close>): \<open>rho\<close> at \<open>sigma = 0\<close>, and the exponent \<open>1 / rho\<close> at \<open>rho = 0\<close>, that is
  at \<open>sigma = 1\<close>.  Neither expression has a case distinction.
\<close>

definition cobb_douglas_output :: "real \<Rightarrow> real \<Rightarrow> real \<Rightarrow> real \<Rightarrow> num" where
  "cobb_douglas_output alpha A K L = Val (K powr alpha * (A * L) powr (1 - alpha))"

definition ces_output :: "real \<Rightarrow> real \<Rightarrow> real \<Rightarrow> real \<Rightarrow> real \<Rightarrow> num" where
  "ces_output alpha sigma A K L =
     (if sigma = 0 then NaN
      else let rho = (sigma - 1) / sigma in
        if rho = 0 then NaN
        else Val ((alpha * K powr rho + (1 - alpha) * (A * L) powr rho) powr (1 / rho)))"

text \<open>
  Modelled from the spec: the class \<open>solowpy.Model\<close>, which derives the intensive form
  and the equation of motion from the production function, is not among the notebooks.
  Its documentation in notebook 1 gives \<open>f(k) = F(K/AL, 1)\<close> (1.3.1) and
  \<open>k_dot = s f(k) - (g + n + delta) k\<close> (1.3.6).
\<close>

definition intensive_output :: "(real \<Rightarrow> real \<Rightarrow> real \<Rightarrow> num) \<Rightarrow> real \<Rightarrow> num" where
  "intensive_output F k = F 1 k 1"

definition k_dot :: "(real \<Rightarrow> real \<Rightarrow> real \<Rightarrow> num) \<Rightarrow> real \<Rightarrow> real \<Rightarrow> real \<Rightarrow> real \<Rightarrow> real \<Rightarrow> num" where
  "k_dot F s g n delta k =
     (case intensive_output F k of
        Val y \<Rightarrow> Val (s * y - (g + n + delta) * k)
      | NaN \<Rightarrow> NaN)"

text \<open>
  Modelled from the spec: \<open>CobbDouglasModel.steady_state\<close> and
  \<open>CobbDouglasModel.analytic_solution\<close> are methods of \<open>solowpy\<close>; the notebook on
  solving the model only calls them.  The steady state is the spec's
  \<open>k* = (s/(n+g+delta))^(1/(1-alpha))\<close>, the solution is formula (4.2.0) of the notebook.
\<close>

definition steady_state :: "real \<Rightarrow> real \<Rightarrow> real \<Rightarrow> real \<Rightarrow> real \<Rightarrow> real" where
  "steady_state alpha s g n delta = (s / (n + g + delta)) powr (1 / (1 - alpha))"

definition analytic_solution :: "real \<Rightarrow> real \<Rightarrow> real \<Rightarrow> real \<Rightarrow> real \<Rightarrow> real \<Rightarrow> real \<Rightarrow> real" where
  "analytic_solution alpha s g n delta t k0 =
     ((s / (n + g + delta)) * (1 - exp (- ((n + g + delta) * (1 - alpha) * t)))
        + k0 powr (1 - alpha) * exp (- ((n + g + delta) * (1 - alpha) * t)))
       powr (1 / (1 - alpha))"

text \<open>
  The parameter sets the spec admits: \<open>0 < alpha < 1\<close>, \<open>s, delta > 0\<close> and
  \<open>g + n + delta > 0\<close>.
\<close>

definition admissible :: "real \<Rightarrow> real \<Rightarrow> real \<Rightarrow> real \<Rightarrow> real \<Rightarrow> bool" where
  "admissible alpha s g n delta \<longleftrightarrow>
     0 < alpha \<and> alpha < 1 \<and> 0 < s \<and> 0 < delta \<and> 0 < g + n + delta"

text \<open>
  Modelled from the spec: \<open>CESModel.steady_state\<close> is a method of \<open>solowpy\<close>.  The spec's
  steady state is the capital stock at which net investment offsets effective
  depreciation, \<open>s f(k) = (g + n + delta) k\<close>.  For the CES production function, with
  \<open>rho = (sigma - 1) / sigma\<close>, that equation reads
  \<open>alpha + (1 - alpha) k^(-rho) = ((g + n + delta) / s)^rho\<close>: it has a solution exactly when
  the right-hand side exceeds \<open>alpha\<close>, and the solution is
  \<open>k* = ((1 - alpha) / (((g + n + delta) / s)^rho - alpha))^(1/rho)\<close>.
\<close>

definition ces_determinate :: "real \<Rightarrow> real \<Rightarrow> real \<Rightarrow> real \<Rightarrow> real \<Rightarrow> real \<Rightarrow> bool" where
  "ces_determinate alpha sigma s g n delta \<longleftrightarrow>
     alpha < ((g + n + delta) / s) powr ((sigma - 1) / sigma)"

definition ces_steady_state :: "real \<Rightarrow> real \<Rightarrow> real \<Rightarrow> real \<Rightarrow> real \<Rightarrow> real \<Rightarrow> real" where
  "ces_steady_state alpha sigma s g n delta =
     (let rho = (sigma - 1) / sigma
      in ((1 - alpha) / (((g + n + delta) / s) powr rho - alpha)) powr (1 / rho))"

text \<open>The average product of capital \<open>f(k) / k\<close> of the CES production function.\<close>

definition ces_psi :: "real \<Rightarrow> real \<Rightarrow> real \<Rightarrow> real" where
  "ces_psi alpha rho k = (alpha + (1 - alpha) * k powr (- rho)) powr (1 / rho)"

section \<open>Notebook 6: series, regression and the model object\<close>

text \<open>
  Arithmetic on floats: the exact result is rounded; a missing operand gives a missing
  result, and so does a division by zero or the logarithm of a number that is not
  positive.
\<close>

fun nsub :: "num \<Rightarrow> num \<Rightarrow> num" where
  "nsub (Val a) (Val b) = Val (round64 (a - b))"
| "nsub _ _ = NaN"

fun nmul :: "num \<Rightarrow> num \<Rightarrow> num" where
  "nmul (Val a) (Val b) = Val (round64 (a * b))"
| "nmul _ _ = NaN"

fun ndiv :: "num \<Rightarrow> num \<Rightarrow> num" where
  "ndiv (Val a) (Val b) = (if b = 0 then NaN else Val (round64 (a / b)))"
| "ndiv _ _ = NaN"

fun nneg :: "num \<Rightarrow> num" where
  "nneg (Val a) = Val (- a)"
| "nneg NaN = NaN"

fun np_log :: "num \<Rightarrow> num" where
  "np_log (Val a) = (if 0 < a then Val (ln a) else NaN)"
| "np_log NaN = NaN"

fun np_exp :: "num \<Rightarrow> num" where
  "np_exp (Val a) = Val (exp a)"
| "np_exp NaN = NaN"

text \<open>\<^verbatim>\<open>np.sum\<close> of an array: one missing entry makes the sum missing.\<close>

definition np_sum :: "num list \<Rightarrow> num" where
  "np_sum xs = (if NaN \<in> set xs then NaN else Val (float_sum (map val xs)))"

text \<open>
  \<^verbatim>\<open>Series.mean()\<close> skips missing entries and divides the sum of the others by their
  number; the mean of a series with no entry left, of the empty series in particular,
  is missing.  The sum is taken from left to right (the libraries may add a long
  series in another order, which can change the last bits of the result).
\<close>

fun finite_values :: "num list \<Rightarrow> real list" where
  "finite_values [] = []"
| "finite_values (Val a # xs) = a # finite_values xs"
| "finite_values (NaN # xs) = finite_values xs"

definition mean :: "num list \<Rightarrow> num" where
  "mean xs =
     (let vs = finite_values xs
      in if vs = [] then NaN else Val (round64 (float_sum vs / real (length vs))))"

text \<open>\<^verbatim>\<open>np.linspace(0, N - 1, N)\<close>: the trend \<open>0, 1, ..., N - 1\<close>.\<close>

definition linspace :: "nat \<Rightarrow> num list" where
  "linspace N = map (\<lambda>i. Val (real i)) [0..<N]"

text \<open>
  \<^verbatim>\<open>stats.norm.pdf(x, loc, scale)\<close>, which has no value unless the scale is positive.
  The density is the exact one: it does not underflow to zero far from \<open>loc\<close>.
\<close>

fun norm_pdf :: "num \<Rightarrow> real \<Rightarrow> num \<Rightarrow> num" where
  "norm_pdf (Val v) loc (Val scale) =
     (if 0 < scale then Val (exp (- (((v - loc) / scale)\<^sup>2) / 2) / (sqrt (2 * pi) * scale))
      else NaN)"
| "norm_pdf _ _ _ = NaN"

text \<open>
  \<^verbatim>\<open>pd.ols(y=..., x=...)\<close> regresses \<open>y\<close> on \<open>x\<close> and an intercept; its \<open>beta\<close> holds the
  coefficient of \<open>x\<close> first and the intercept second.  Observations with a missing
  \<open>y\<close> or \<open>x\<close> are left out, and the regression raises ValueError when none is left.
  The coefficients are the least-squares solution: the solution of the normal
  equations when the regressor is not constant, and the solution of least norm (the
  one of the pseudo-inverse) when it is, as for a single observation.
\<close>

fun present_rows :: "num list \<Rightarrow> num list \<Rightarrow> (real \<times> real) list" where
  "present_rows (Val u # x) (Val v # y) = (u, v) # present_rows x y"
| "present_rows (_ # x) (_ # y) = present_rows x y"
| "present_rows _ _ = []"

definition pd_ols :: "num list \<Rightarrow> num list \<Rightarrow> error + num list" where
  "pd_ols y x =
     (let rows = present_rows x y
      in if rows = [] then Inl ValueError
         else
           let xs = map fst rows; ys = map snd rows;
               N = real (length rows);
               Sx = sum_list xs; Sy = sum_list ys;
               Sxx = sum_list (map (\<lambda>u. u * u) xs);
               Sxy = sum_list (map (\<lambda>(u, v). u * v) rows);
               D = N * Sxx - Sx * Sx
           in if D \<noteq> 0 then
                let slope = (N * Sxy - Sx * Sy) / D;
                    intercept = (Sy - slope * Sx) / N
                in Inr [Val slope, Val intercept]
              else
                let c = Sx / N; ybar = Sy / N
                in Inr [Val (ybar * c / (c * c + 1)), Val (ybar / (c * c + 1))])"

text \<open>
  The sum of squared residuals of the line \<open>a + b x\<close>, and what it means that \<open>(a, b)\<close>
  is an ordinary-least-squares fit of \<open>ys\<close> on a constant and \<open>xs\<close>.
\<close>

definition ssr :: "real list \<Rightarrow> real list \<Rightarrow> real \<Rightarrow> real \<Rightarrow> real" where
  "ssr ys xs a b = sum_list (map (\<lambda>(u, v). (v - (a + b * u))\<^sup>2) (zip xs ys))"

definition ols_fit :: "real list \<Rightarrow> real list \<Rightarrow> real \<Rightarrow> real \<Rightarrow> bool" where
  "ols_fit ys xs a b \<longleftrightarrow> (\<forall>a' b'. ssr ys xs a b \<le> ssr ys xs a' b')"

text \<open>
  The model object of \<open>solowpy\<close>: its parameter dictionary, and its methods as functions
  of that dictionary.  Assigning to \<open>model.params\<close> validates the new dictionary and
  raises AttributeError when it is refused; \<open>evaluate_solow_residual\<close> and
  \<open>evaluate_output_elasticity\<close> evaluate an expression of the current parameters
  observation by observation.  The two methods are total here: where the library would
  refuse an observation, the entry is whatever the model's function gives (\<open>NaN\<close> for
  the example model further down).
\<close>

record model =
  params :: params
  validate_params :: "params \<Rightarrow> bool"
  solow_residual :: "params \<Rightarrow> num \<Rightarrow> num \<Rightarrow> num \<Rightarrow> num"
  output_elasticity :: "params \<Rightarrow> num \<Rightarrow> num"

definition evaluate_solow_residual :: "model \<Rightarrow> num list \<Rightarrow> num list \<Rightarrow> num list \<Rightarrow> num list" where
  "evaluate_solow_residual m Y K L =
     map (\<lambda>(y, k, l). solow_residual m (params m) y k l) (zip Y (zip K L))"

definition evaluate_output_elasticity :: "model \<Rightarrow> num list \<Rightarrow> num list" where
  "evaluate_output_elasticity m k = map (output_elasticity m (params m)) k"

section \<open>Notebook 6: the observations\<close>

text \<open>
  \<^verbatim>\<open>data.major_xs(iso3_code)\<close> is the table of one country: a row per year, in ascending
  order of the years, with a float (possibly missing) in each column.
\<close>

record row =
  year :: int
  rgdpna :: num
  rkna :: num
  emp :: num
  labsh :: num
  csh_i :: num
  delta_k :: num

type_synonym frame = "row list"

type_synonym panel = "string \<rightharpoonup> frame"

type_synonym bounds = "(int option \<times> int option) option"

definition column :: "string \<Rightarrow> row \<Rightarrow> num" where
  "column v r =
     (if v = ''rgdpna'' then rgdpna r
      else if v = ''rkna'' then rkna r
      else if v = ''emp'' then emp r
      else if v = ''labsh'' then labsh r
      else if v = ''csh_i'' then csh_i r
      else if v = ''delta_k'' then delta_k r
      else NaN)"

text \<open>\<^verbatim>\<open>tmp_data[required_vars].dropna()\<close>: the rows with every required column present.\<close>

definition dropna :: "string list \<Rightarrow> frame \<Rightarrow> frame" where
  "dropna required_vars tmp_data =
     filter (\<lambda>r. list_all (\<lambda>v. column v r \<noteq> NaN) required_vars) tmp_data"

text \<open>\<^verbatim>\<open>tmp_data.loc[start:end]\<close>: the rows from \<open>start\<close> to \<open>end\<close>, both included;
  \<open>None\<close> leaves a side open.\<close>

definition loc :: "int option \<Rightarrow> int option \<Rightarrow> frame \<Rightarrow> frame" where
  "loc start end' tmp_data =
     filter (\<lambda>r. (case start of None \<Rightarrow> True | Some a \<Rightarrow> a \<le> year r) \<and>
                 (case end' of None \<Rightarrow> True | Some b \<Rightarrow> year r \<le> b)) tmp_data"

definition insufficient :: string where
  "insufficient = ''Insufficient data to estimate model parameters''"

text \<open>
  The opening lines that \<open>match_moments\<close> and \<open>maximize_likelihood\<close> share:
  \<^verbatim>\<open>
  tmp_data = tmp_data[required_vars].dropna()
  assert not tmp_data.empty, "Insufficient data to estimate model parameters"
  if bounds is None:
      start = tmp_data.index[0]
      end = tmp_data.index[-1]
  else:
      start = bounds[0]
      end = bounds[1]
  tmp_data = tmp_data.loc[start:end]
  \<close>
\<close>

definition calibration_window :: "string list \<Rightarrow> frame \<Rightarrow> bounds \<Rightarrow> error + frame" where
  "calibration_window required_vars frame bounds =
     (let tmp_data = dropna required_vars frame
      in if tmp_data = [] then Inl (AssertionError insufficient)
         else
           let (start, end') =
                 (case bounds of
                    None \<Rightarrow> (Some (year (hd tmp_data)), Some (year (last tmp_data)))
                  | Some b \<Rightarrow> (fst b, snd b))
           in Inr (loc start end' tmp_data))"

section \<open>Notebook 6: moment matching\<close>

text \<open>\<^verbatim>\<open>required_vars = ['rgdpna', 'rkna', 'emp', 'labsh', 'csh_i', 'delta_k']\<close>\<close>

definition required_vars :: "string list" where
  "required_vars = [''rgdpna'', ''rkna'', ''emp'', ''labsh'', ''csh_i'', ''delta_k'']"

text \<open>
  The body of \<open>match_moments\<close>, statement by statement.  The table is restricted to the
  window before the series are taken from it, so the later \<^verbatim>\<open>.loc[start:end]\<close> on the
  trend and on the Solow residual select every entry and are left out.  The Solow
  residual is evaluated with the parameters the model holds when it is called.  An
  exception of a regression ends the function.
\<close>

definition match_moments :: "model \<Rightarrow> panel \<Rightarrow> string \<Rightarrow> bounds \<Rightarrow> error + params" where
  "match_moments m data iso3_code bounds =
     (case data iso3_code of
        None \<Rightarrow> Inl (KeyError iso3_code)
      | Some frame \<Rightarrow>
     (case calibration_window required_vars frame bounds of
        Inl e \<Rightarrow> Inl e
      | Inr tmp_data \<Rightarrow>
          let output = map rgdpna tmp_data;
              capital = map rkna tmp_data;
              labor = map emp tmp_data;
              labor_share = map labsh tmp_data;
              savings_rate = map csh_i tmp_data;
              depreciation_rate = map delta_k tmp_data;
              N = length tmp_data;
              time_trend = linspace N;
              capital_share = map (nsub (Val 1)) labor_share;
              alpha = mean capital_share;
              technology = evaluate_solow_residual m output capital labor;
              s = mean savings_rate
          in
     (case pd_ols (map np_log labor) time_trend of
        Inl e \<Rightarrow> Inl e
      | Inr res \<Rightarrow>
          let n = res ! 0;
              L0 = np_exp (res ! 1)
          in
     (case pd_ols (map np_log technology) time_trend of
        Inl e \<Rightarrow> Inl e
      | Inr res' \<Rightarrow>
          let g = res' ! 0;
              A0 = np_exp (res' ! 1);
              delta = mean depreciation_rate
          in Inr [''s'' \<mapsto> s, ''alpha'' \<mapsto> alpha, ''delta'' \<mapsto> delta, ''n'' \<mapsto> n,
                  ''L0'' \<mapsto> L0, ''g'' \<mapsto> g, ''A0'' \<mapsto> A0]))))"

section \<open>Notebook 6: maximum likelihood\<close>

text \<open>\<^verbatim>\<open>required_vars = ['rgdpna', 'rkna', 'emp', 'labsh']\<close> in \<open>maximize_likelihood\<close>.\<close>

definition required_vars_ml :: "string list" where
  "required_vars_ml = [''rgdpna'', ''rkna'', ''emp'', ''labsh'']"

definition cobb_douglas_initial_guess ::
    "model \<Rightarrow> panel \<Rightarrow> string \<Rightarrow> bounds \<Rightarrow> num \<Rightarrow> num \<Rightarrow> error + num list" where
  "cobb_douglas_initial_guess m data iso3_code bounds sigma0 sigma_eps0 =
     (case match_moments m data iso3_code bounds of
        Inl e \<Rightarrow> Inl e
      | Inr tmp_params \<Rightarrow>
          params_to_array (tmp_params(''sigma'' \<mapsto> sigma0, ''sigma_eps'' \<mapsto> sigma_eps0)))"

text \<open>
  The objective works on the model object it is handed: it stores the candidate
  parameters in \<open>model.params\<close> and evaluates the model's methods there.  The function
  returns its value (or the exception) together with the model as it leaves it.
  \<^verbatim>\<open>
  tmp_params = model.params.copy()
  new_params = _array_to_params(params_array)
  tmp_params.update(new_params)
  model.params = tmp_params
  \<close>
\<close>

definition likelihood_function ::
    "num list \<Rightarrow> model \<Rightarrow> num list \<Rightarrow> num list \<Rightarrow> num list \<Rightarrow> num list \<Rightarrow> (error + num) \<times> model" where
  "likelihood_function params_array m output capital labor labor_share =
     (let tmp_params = params m ++ array_to_params params_array
      in if \<not> validate_params m tmp_params then (Inl AttributeError, m)
         else
           let m' = m\<lparr>params := tmp_params\<rparr>;
               technology = evaluate_solow_residual m' output capital labor;
               k = map (\<lambda>(c, e). ndiv c e) (zip capital (map (\<lambda>(t, l). nmul t l) (zip technology labor)));
               predicted_labor_share = map (nsub (Val 1)) (evaluate_output_elasticity m' k);
               residual = map (\<lambda>(a, b). nsub a b) (zip labor_share predicted_labor_share)
           in case params m' ''sigma_eps'' of
                None \<Rightarrow> (Inl (KeyError ''sigma_eps''), m')
              | Some sigma_eps \<Rightarrow>
                  let total_log_likelihood =
                        np_sum (map (\<lambda>r. np_log (norm_pdf r 0 sigma_eps)) residual)
                  in (Inr (nneg total_log_likelihood), m'))"

text \<open>
  \<^verbatim>\<open>optimize.minimize\<close> is any optimiser: it is given the objective, the starting vector,
  the model the objective works on, the name of the method and the bounds, and hands
  back its \<open>OptimizeResult\<close> (or the exception of an evaluation) and the model as the
  evaluations left it.
\<close>

record opt_result =
  success :: bool
  res_x :: "num list"
  message :: string

type_synonym objective = "num list \<Rightarrow> model \<Rightarrow> (error + num) \<times> model"

type_synonym optimizer =
  "objective \<Rightarrow> num list \<Rightarrow> model \<Rightarrow> string \<Rightarrow> (real option \<times> real option) list
     \<Rightarrow> (error + opt_result) \<times> model"

text \<open>
  \<^verbatim>\<open>
  eps = 1e-6
  bnds = [(None, None), (None, None), (eps, 1-eps), (eps, 1-eps),
          (eps, None), (eps, None), (eps, None)]
  \<close>
\<close>

definition eps :: real where
  "eps = 1 / 10 ^ 6"

definition bnds :: "(real option \<times> real option) list" where
  "bnds = [(None, None), (None, None), (Some eps, Some (1 - eps)), (Some eps, Some (1 - eps)),
           (Some eps, None), (Some eps, None), (Some eps, None)]"

text \<open>
  \<^verbatim>\<open>return result, tmp_params\<close> on success, \<^verbatim>\<open>return result\<close> otherwise.  The
  entries \<^verbatim>\<open>technology[0]\<close>, \<^verbatim>\<open>labor[0]\<close> and \<^verbatim>\<open>capital[0]\<close> are the first of their series
  (the years are labels given as strings, not positions); a series without entries
  has none, and the index raises.  The Solow residual \<open>technology\<close> is evaluated before
  the optimisation, with the parameters the model holds then.
\<close>

datatype ml_outcome = Estimated opt_result params | NotConverged opt_result

definition maximize_likelihood ::
    "optimizer \<Rightarrow> model \<Rightarrow> panel \<Rightarrow> string \<Rightarrow> bounds \<Rightarrow> string \<Rightarrow> num \<Rightarrow> num
       \<Rightarrow> (error + ml_outcome) \<times> model" where
  "maximize_likelihood minimize m data iso3_code bounds method sigma0 sigma_eps0 =
     (case data iso3_code of
        None \<Rightarrow> (Inl (KeyError iso3_code), m)
      | Some frame \<Rightarrow>
     (case calibration_window required_vars_ml frame bounds of
        Inl e \<Rightarrow> (Inl e, m)
      | Inr tmp_data \<Rightarrow>
          let output = map rgdpna tmp_data;
              capital = map rkna tmp_data;
              labor = map emp tmp_data;
              labor_share = map labsh tmp_data;
              technology = evaluate_solow_residual m output capital labor
          in
     (case cobb_douglas_initial_guess m data iso3_code bounds sigma0 sigma_eps0 of
        Inl e \<Rightarrow> (Inl e, m)
      | Inr initial_guess \<Rightarrow>
     (case minimize (\<lambda>a mdl. likelihood_function a mdl output capital labor labor_share)
             initial_guess m method bnds of
        (Inl e, m') \<Rightarrow> (Inl e, m')
      | (Inr result, m') \<Rightarrow>
          if success result then
            (case (technology, labor, capital) of
               (A0 # _, L0 # _, K0 # _) \<Rightarrow>
                 (Inr (Estimated result
                    ((array_to_params (res_x result))(''A0'' \<mapsto> A0, ''L0'' \<mapsto> L0, ''K0'' \<mapsto> K0))), m')
             | _ \<Rightarrow> (Inl IndexError, m'))
          else (Inr (NotConverged result), m')))))"

section \<open>A model object, a data set and optimisers for the examples\<close>

text \<open>
  Modelled from the spec: the class \<open>solowpy.CobbDouglasModel\<close> is not among the
  notebooks.  The instance below follows the spec: the invariants of ModelParameters
  decide the validation, the Solow residual is the \<open>A\<close> that solves
  \<open>Y = K^alpha (A L)^(1 - alpha)\<close>, and the output elasticity of capital is \<open>alpha\<close>.
\<close>

definition valid_solow_params :: "params \<Rightarrow> bool" where
  "valid_solow_params p =
     (case (p ''alpha'', p ''s'', p ''delta'', p ''g'', p ''n'') of
        (Some (Val a), Some (Val s), Some (Val d), Some (Val g), Some (Val n)) \<Rightarrow>
          0 < a \<and> a < 1 \<and> 0 < s \<and> 0 < d \<and> 0 < g + n + d
      | _ \<Rightarrow> False)"

definition cobb_douglas_residual :: "params \<Rightarrow> num \<Rightarrow> num \<Rightarrow> num \<Rightarrow> num" where
  "cobb_douglas_residual p Y K L =
     (case (p ''alpha'', Y, K, L) of
        (Some (Val a), Val y, Val k, Val l) \<Rightarrow>
          if 0 < k \<and> 0 < l \<and> 0 \<le> y \<and> a \<noteq> 1
          then Val ((y / k powr a) powr (1 / (1 - a)) / l) else NaN
      | _ \<Rightarrow> NaN)"

definition cobb_douglas_elasticity :: "params \<Rightarrow> num \<Rightarrow> num" where
  "cobb_douglas_elasticity p k = (case p ''alpha'' of Some a \<Rightarrow> a | None \<Rightarrow> NaN)"

definition CobbDouglasModel :: "params \<Rightarrow> model" where
  "CobbDouglasModel ps =
     \<lparr>params = ps, validate_params = valid_solow_params,
      solow_residual = cobb_douglas_residual, output_elasticity = cobb_douglas_elasticity\<rparr>"

text \<open>The parameters of the notebook's \<open>ces_params\<close>, as exact fractions.\<close>

definition ces_params :: params where
  "ces_params =
     [''K0'' \<mapsto> Val 1, ''A0'' \<mapsto> Val 1, ''L0'' \<mapsto> Val 1, ''g'' \<mapsto> Val (2/100),
      ''n'' \<mapsto> Val (3/100), ''s'' \<mapsto> Val (15/100), ''delta'' \<mapsto> Val (5/100),
      ''alpha'' \<mapsto> Val (33/100), ''sigma'' \<mapsto> Val (95/100), ''sigma_eps'' \<mapsto> Val (1/100)]"

text \<open>
  Three complete years with the labour shares 0.25, 0.5 and 0.75 and employment growing
  by the factor \<open>e\<close> a year, and a fourth year whose labour share is missing.  The
  investment share is 0.25 and the depreciation rate 0.0625 throughout.
\<close>

definition obs :: "int \<Rightarrow> num \<Rightarrow> num \<Rightarrow> row" where
  "obs y l ls =
     \<lparr>year = y, rgdpna = Val 1, rkna = Val 1, emp = l, labsh = ls,
      csh_i = Val (1/4), delta_k = Val (1/16)\<rparr>"

definition example_frame :: frame where
  "example_frame =
     [obs 2000 (Val 1) (Val (1/4)), obs 2001 (Val (exp 1)) (Val (1/2)),
      obs 2002 (Val (exp 2)) (Val (3/4)), obs 2003 (Val (exp 3)) NaN]"

definition example_panel :: panel where
  "example_panel = [''USA'' \<mapsto> example_frame]"



text \<open>
  Two optimisers: one gives up at once and reports the starting vector without
  success; the other evaluates the objective once, at the starting vector, and reports
  success there.
\<close>

definition stalled_optimizer :: optimizer where
  "stalled_optimizer f x0 m method bs =
     (Inr \<lparr>success = False, res_x = x0, message = ''Maximum number of iterations has been exceeded.''\<rparr>, m)"

definition one_step_optimizer :: optimizer where
  "one_step_optimizer f x0 m method bs =
     (case f x0 m of
        (Inl e, m') \<Rightarrow> (Inl e, m')
      | (Inr v, m') \<Rightarrow>
          (Inr \<lparr>success = True, res_x = x0, message = ''Optimization terminated successfully.''\<rparr>, m'))"

section \<open>Properties\<close>

subsection \<open>The analytic solution of the Cobb-Douglas model\<close>

lemma analytic_solution_0:
  assumes "admissible alpha s g n delta" "0 \<le> k0"
  shows "analytic_solution alpha s g n delta 0 k0 = k0"
  using assms by (simp add: analytic_solution_def admissible_def powr_powr)

lemma exp_decay_tendsto:
  assumes "0 < (c::real)"
  shows "((\<lambda>t. exp (- c * t)) \<longlongrightarrow> 0) at_top"
proof -
  have "filterlim (\<lambda>t. c * t) at_top at_top"
    using assms by (rule filterlim_tendsto_pos_mult_at_top[OF tendsto_const]) (rule filterlim_ident)
  then have "filterlim (\<lambda>t. - (c * t)) at_bot at_top"
    by (simp add: filterlim_uminus_at_bot)
  then have "((\<lambda>t. exp (- (c * t))) \<longlongrightarrow> 0) at_top"
    by (rule filterlim_compose[OF exp_at_bot])
  then show ?thesis by simp
qed

lemma analytic_solution_limit:
  assumes "admissible alpha s g n delta"
  shows "((\<lambda>t. analytic_solution alpha s g n delta t k0) \<longlongrightarrow> steady_state alpha s g n delta) at_top"
proof -
  let ?c = "(n + g + delta) * (1 - alpha)"
  have c: "0 < ?c" using assms by (simp add: admissible_def)
  have E: "((\<lambda>t. exp (- (?c * t))) \<longlongrightarrow> 0) at_top" using exp_decay_tendsto[OF c] by simp
  have pos: "s / (n + g + delta) \<noteq> 0" using assms by (simp add: admissible_def algebra_simps)
  have "((\<lambda>t. (s / (n + g + delta)) * (1 - exp (- (?c * t))) + k0 powr (1 - alpha) * exp (- (?c * t)))
          \<longlongrightarrow> (s / (n + g + delta)) * (1 - 0) + k0 powr (1 - alpha) * 0) at_top"
    by (intro tendsto_intros E)
  then have "((\<lambda>t. ((s / (n + g + delta)) * (1 - exp (- (?c * t))) + k0 powr (1 - alpha) * exp (- (?c * t))) powr (1 / (1 - alpha)))
          \<longlongrightarrow> (s / (n + g + delta)) powr (1 / (1 - alpha))) at_top"
    using pos by (intro tendsto_powr tendsto_const) simp_all
  moreover have "analytic_solution alpha s g n delta t k0 =
      ((s / (n + g + delta)) * (1 - exp (- (?c * t))) + k0 powr (1 - alpha) * exp (- (?c * t))) powr (1 / (1 - alpha))" for t
    by (simp only: analytic_solution_def)
  ultimately show ?thesis
    by (simp only: steady_state_def)
qed

text \<open>
  C4: for every admissible Cobb-Douglas parameter set and every \<open>k0 \<ge> 0\<close>, the closed-form
  solution starts at \<open>k0\<close> and converges to the steady state
  \<open>(s/(n+g+delta))^(1/(1-alpha))\<close> as \<open>t\<close> goes to infinity.
\<close>

theorem analytic_solution_start_and_limit:
  assumes "admissible alpha s g n delta" and "0 \<le> k0"
  shows "analytic_solution alpha s g n delta 0 k0 = k0 \<and>
         ((\<lambda>t. analytic_solution alpha s g n delta t k0)
            \<longlongrightarrow> steady_state alpha s g n delta) at_top"
  using analytic_solution_0[OF assms] analytic_solution_limit[OF assms(1)] by simp

theorem analytic_solution_start_and_limit_witness:
  "admissible (33/100) (15/100) (2/100) (3/100) (5/100) \<and> (0::real) \<le> 1/2 \<and>
   analytic_solution (33/100) (15/100) (2/100) (3/100) (5/100) 0 (1/2) = 1/2 \<and>
   ((\<lambda>t. analytic_solution (33/100) (15/100) (2/100) (3/100) (5/100) t (1/2))
      \<longlongrightarrow> steady_state (33/100) (15/100) (2/100) (3/100) (5/100)) at_top"
proof -
  have a: "admissible (33/100) (15/100) (2/100) (3/100) (5/100)" by (simp add: admissible_def)
  have k: "(0::real) \<le> 1/2" by simp
  from analytic_solution_start_and_limit[OF a k] a k show ?thesis by blast
qed

subsection \<open>The sign of the drift\<close>

lemma k_dot_cobb_douglas:
  "k_dot (cobb_douglas_output alpha) s g n delta k = Val (s * k powr alpha - (g + n + delta) * k)"
  by (simp add: k_dot_def intensive_output_def cobb_douglas_output_def)

lemma steady_state_powr:
  assumes "admissible alpha s g n delta"
  shows "steady_state alpha s g n delta powr (1 - alpha) = s / (g + n + delta)"
    and "0 < steady_state alpha s g n delta"
proof -
  have e: "n + g + delta = g + n + delta" by simp
  have p: "0 < s / (g + n + delta)" using assms by (simp add: admissible_def)
  have a: "1 / (1 - alpha) * (1 - alpha) = 1" using assms by (simp add: admissible_def)
  show "steady_state alpha s g n delta powr (1 - alpha) = s / (g + n + delta)"
    unfolding steady_state_def e powr_powr a using p by (simp only: powr_one)
  show "0 < steady_state alpha s g n delta"
    unfolding steady_state_def e using assms by (simp add: admissible_def)
qed

lemma drift_factor:
  assumes "0 < (k::real)"
  shows "s * k powr alpha - c * k = k powr alpha * (s - c * k powr (1 - alpha))"
proof -
  have "k powr alpha * k powr (1 - alpha) = k powr (alpha + (1 - alpha))" by (rule powr_add[symmetric])
  also have "\<dots> = k powr 1" by simp
  also have "\<dots> = k" using assms by simp
  finally show ?thesis by (simp add: algebra_simps)
qed

lemma cobb_douglas_drift_sign:
  assumes adm: "admissible alpha s g n delta" and k: "0 < k"
  defines "d \<equiv> s * k powr alpha - (g + n + delta) * k"
  shows "(d = 0 \<longleftrightarrow> k = steady_state alpha s g n delta)"
    and "(steady_state alpha s g n delta < k \<longrightarrow> d < 0)"
    and "(k < steady_state alpha s g n delta \<longrightarrow> 0 < d)"
proof -
  let ?c = "g + n + delta" and ?ks = "steady_state alpha s g n delta"
  have c: "0 < ?c" and a: "0 < 1 - alpha" using adm by (simp_all add: admissible_def)
  have ks: "?ks powr (1 - alpha) = s / ?c" "0 < ?ks" using steady_state_powr[OF adm] by simp_all
  have pa: "0 < k powr alpha" using k by simp
  have d: "d = k powr alpha * (s - ?c * k powr (1 - alpha))"
    unfolding d_def by (rule drift_factor[OF k])
  have lt: "k powr (1 - alpha) < s / ?c \<longleftrightarrow> k < ?ks"
    using powr_less_mono2[OF a, of k ?ks] powr_less_cancel2[OF a k ks(2)] k ks by auto
  have gt: "s / ?c < k powr (1 - alpha) \<longleftrightarrow> ?ks < k"
    using powr_less_mono2[OF a, of ?ks k] powr_less_cancel2[OF a ks(2) k] k ks by auto
  have lt': "0 < s - ?c * k powr (1 - alpha) \<longleftrightarrow> k < ?ks"
    using lt c by (simp add: pos_less_divide_eq mult.commute)
  have gt': "s - ?c * k powr (1 - alpha) < 0 \<longleftrightarrow> ?ks < k"
    using gt c by (simp add: pos_divide_less_eq mult.commute)
  show "steady_state alpha s g n delta < k \<longrightarrow> d < 0"
    using gt' pa d by (simp add: mult_pos_neg)
  show "k < steady_state alpha s g n delta \<longrightarrow> 0 < d"
    using lt' pa d by simp
  show "d = 0 \<longleftrightarrow> k = ?ks"
  proof -
    have "d = 0 \<longleftrightarrow> s - ?c * k powr (1 - alpha) = 0" using pa d by simp
    also have "\<dots> \<longleftrightarrow> \<not> k < ?ks \<and> \<not> ?ks < k" using lt' gt' by linarith
    also have "\<dots> \<longleftrightarrow> k = ?ks" by auto
    finally show ?thesis .
  qed
qed

lemma ces_drift_example:
  assumes "0 < k"
  shows "k_dot (ces_output (1/2) 2) (1/5) (1/100) (1/100) (3/100) k = Val ((2 * sqrt k + 1) / 20)"
proof -
  have "0 \<le> sqrt k / 2 + 1 / 2" using assms by simp
  have "(sqrt k / 2 + 1 / 2)\<^sup>2 = (k + 2 * sqrt k + 1) / 4"
    using assms by (simp add: power2_eq_square algebra_simps)
  then show ?thesis using assms
    by (simp add: k_dot_def intensive_output_def ces_output_def powr_half_sqrt field_simps)
qed

lemma k_dot_ces:
  assumes "sigma \<noteq> 0" "sigma \<noteq> 1"
  shows "k_dot (ces_output alpha sigma) s g n delta k =
           Val (s * (alpha * k powr ((sigma - 1) / sigma) + (1 - alpha)) powr (1 / ((sigma - 1) / sigma))
                - (g + n + delta) * k)"
  using assms by (simp add: k_dot_def intensive_output_def ces_output_def Let_def)

lemma ces_intensive_factor:
  assumes k: "0 < k" and r: "rho \<noteq> 0" and a: "0 < alpha" "alpha < 1"
  shows "(alpha * k powr rho + (1 - alpha)) powr (1 / rho) = k * ces_psi alpha rho k"
proof -
  have kk: "k powr rho * k powr (- rho) = 1"
    using k by (simp add: powr_minus)
  have h: "0 < alpha + (1 - alpha) * k powr (- rho)"
    using a k by (intro add_pos_nonneg mult_nonneg_nonneg) simp_all
  have "alpha * k powr rho + (1 - alpha) = k powr rho * (alpha + (1 - alpha) * k powr (- rho))"
    using kk by (simp add: algebra_simps)
  then have "(alpha * k powr rho + (1 - alpha)) powr (1 / rho)
      = (k powr rho) powr (1 / rho) * (alpha + (1 - alpha) * k powr (- rho)) powr (1 / rho)"
    using h by (simp add: powr_mult)
  also have "(k powr rho) powr (1 / rho) = k" using k r by (simp add: powr_powr)
  finally show ?thesis by (simp add: ces_psi_def)
qed

lemma ces_psi_decreasing:
  assumes k: "0 < k1" "k1 < k2" and r: "rho \<noteq> 0" and a: "0 < alpha" "alpha < 1"
  shows "ces_psi alpha rho k2 < ces_psi alpha rho k1"
proof (cases "0 < rho")
  case True
  have "k2 powr (- rho) < k1 powr (- rho)"
    using True k by (intro powr_less_mono2_neg) simp_all
  then have "alpha + (1 - alpha) * k2 powr (- rho) < alpha + (1 - alpha) * k1 powr (- rho)"
    using a by simp
  moreover have "0 \<le> alpha + (1 - alpha) * k2 powr (- rho)"
    using a by (intro add_nonneg_nonneg mult_nonneg_nonneg) simp_all
  ultimately show ?thesis
    unfolding ces_psi_def using True by (intro powr_less_mono2) simp_all
next
  case False
  with r have neg: "rho < 0" by simp
  have "k1 powr (- rho) < k2 powr (- rho)"
    using neg k by (intro powr_less_mono2) simp_all
  then have "alpha + (1 - alpha) * k1 powr (- rho) < alpha + (1 - alpha) * k2 powr (- rho)"
    using a by simp
  moreover have "0 < alpha + (1 - alpha) * k1 powr (- rho)"
    using a by (intro add_pos_nonneg mult_nonneg_nonneg) simp_all
  ultimately show ?thesis
    unfolding ces_psi_def using neg by (intro powr_less_mono2_neg) simp_all
qed

lemma ces_psi_steady_state:
  assumes adm: "admissible alpha s g n delta" and sg: "sigma \<noteq> 0" "sigma \<noteq> 1"
    and det: "ces_determinate alpha sigma s g n delta"
  shows "ces_psi alpha ((sigma - 1) / sigma) (ces_steady_state alpha sigma s g n delta) = (g + n + delta) / s"
    and "0 < ces_steady_state alpha sigma s g n delta"
proof -
  define rho where "rho = (sigma - 1) / sigma"
  define T where "T = ((g + n + delta) / s) powr rho"
  define X where "X = (1 - alpha) / (T - alpha)"
  have r: "rho \<noteq> 0" using sg by (simp add: rho_def)
  have cs: "0 < (g + n + delta) / s" using adm by (simp add: admissible_def)
  have a: "0 < alpha" "alpha < 1" using adm by (simp_all add: admissible_def)
  have T: "alpha < T" using det by (simp add: ces_determinate_def T_def rho_def)
  have X: "0 < X" using a T by (simp add: X_def)
  have ks: "ces_steady_state alpha sigma s g n delta = X powr (1 / rho)"
    by (simp add: ces_steady_state_def Let_def X_def T_def rho_def)
  show "0 < ces_steady_state alpha sigma s g n delta" using X by (simp add: ks)
  have "(X powr (1 / rho)) powr (- rho) = X powr (- 1)" using r by (simp add: powr_powr)
  also have "\<dots> = (T - alpha) / (1 - alpha)" using a T by (simp add: powr_minus X_def)
  finally have "alpha + (1 - alpha) * (X powr (1 / rho)) powr (- rho) = T" using a by simp
  then have "ces_psi alpha rho (X powr (1 / rho)) = T powr (1 / rho)" by (simp add: ces_psi_def)
  also have "\<dots> = (g + n + delta) / s"
  proof -
    have "T powr (1 / rho) = ((g + n + delta) / s) powr 1" using r by (simp add: T_def powr_powr)
    also have "\<dots> = (g + n + delta) / s" using cs by (simp only: powr_one_gt_zero_iff)
    finally show ?thesis .
  qed
  finally show "ces_psi alpha ((sigma - 1) / sigma) (ces_steady_state alpha sigma s g n delta) = (g + n + delta) / s"
    by (simp add: ks rho_def)
qed

lemma ces_psi_zero_determinate:
  assumes adm: "admissible alpha s g n delta" and r: "rho \<noteq> 0" and k: "0 < k"
    and z: "ces_psi alpha rho k = (g + n + delta) / s"
  shows "alpha < ((g + n + delta) / s) powr rho"
proof -
  have a: "0 < alpha" "alpha < 1" using adm by (simp_all add: admissible_def)
  have h: "0 < alpha + (1 - alpha) * k powr (- rho)"
    using a k by (intro add_pos_nonneg mult_nonneg_nonneg) simp_all
  have "((g + n + delta) / s) powr rho = ((alpha + (1 - alpha) * k powr (- rho)) powr (1 / rho)) powr rho"
    using z by (simp add: ces_psi_def)
  also have "\<dots> = alpha + (1 - alpha) * k powr (- rho)" using h r by (simp add: powr_powr)
  finally have "((g + n + delta) / s) powr rho = alpha + (1 - alpha) * k powr (- rho)" .
  moreover have "0 < (1 - alpha) * k powr (- rho)" using a k by simp
  ultimately show ?thesis by linarith
qed

lemma ces_drift_sign:
  assumes adm: "admissible alpha s g n delta" and k: "0 < k" and sg: "sigma \<noteq> 0" "sigma \<noteq> 1"
  defines "d \<equiv> s * (alpha * k powr ((sigma - 1) / sigma) + (1 - alpha)) powr (1 / ((sigma - 1) / sigma))
                - (g + n + delta) * k"
  shows "ces_determinate alpha sigma s g n delta \<Longrightarrow> (d = 0 \<longleftrightarrow> k = ces_steady_state alpha sigma s g n delta)"
    and "ces_determinate alpha sigma s g n delta \<Longrightarrow> ces_steady_state alpha sigma s g n delta < k \<Longrightarrow> d < 0"
    and "ces_determinate alpha sigma s g n delta \<Longrightarrow> k < ces_steady_state alpha sigma s g n delta \<Longrightarrow> 0 < d"
    and "\<not> ces_determinate alpha sigma s g n delta \<Longrightarrow> d \<noteq> 0"
proof -
  define rho where "rho = (sigma - 1) / sigma"
  define c where "c = g + n + delta"
  let ?ks = "ces_steady_state alpha sigma s g n delta"
  have r: "rho \<noteq> 0" using sg by (simp add: rho_def)
  have a: "0 < alpha" "alpha < 1" and s: "0 < s" and c: "0 < c"
    using adm by (simp_all add: admissible_def c_def)
  have d: "d = k * (s * ces_psi alpha rho k - c)"
    unfolding d_def using ces_intensive_factor[OF k r a]
    by (simp add: rho_def c_def algebra_simps)
  have sign: "(d < 0 \<longleftrightarrow> ces_psi alpha rho k < c / s)" "(0 < d \<longleftrightarrow> c / s < ces_psi alpha rho k)"
    "(d = 0 \<longleftrightarrow> ces_psi alpha rho k = c / s)"
    using k s by (simp_all add: d mult_less_0_iff zero_less_mult_iff field_simps)
  show "\<not> ces_determinate alpha sigma s g n delta \<Longrightarrow> d \<noteq> 0"
    using ces_psi_zero_determinate[OF adm r k] sign(3)
    by (auto simp: ces_determinate_def rho_def c_def)
  {
    assume det: "ces_determinate alpha sigma s g n delta"
    have ks: "ces_psi alpha rho ?ks = c / s" "0 < ?ks"
      using ces_psi_steady_state[OF adm sg det] by (simp_all add: rho_def c_def)
    show "ces_steady_state alpha sigma s g n delta < k \<Longrightarrow> d < 0"
      using ces_psi_decreasing[OF ks(2) _ r a, of k] ks(1) sign(1) by simp
    show "k < ces_steady_state alpha sigma s g n delta \<Longrightarrow> 0 < d"
      using ces_psi_decreasing[OF k _ r a, of ?ks] ks(1) sign(2) by simp
    show "d = 0 \<longleftrightarrow> k = ?ks"
    proof
      assume "d = 0"
      then have e: "ces_psi alpha rho k = ces_psi alpha rho ?ks" using sign(3) ks(1) by simp
      show "k = ?ks"
      proof (rule ccontr)
        assume "k \<noteq> ?ks"
        then consider "k < ?ks" | "?ks < k" by linarith
        then show False
          using ces_psi_decreasing[OF k _ r a, of ?ks] ces_psi_decreasing[OF ks(2) _ r a, of k] e
          by cases simp_all
      qed
    next
      assume "k = ?ks"
      then show "d = 0" using sign(3) ks(1) by simp
    qed
  }
qed

text \<open>
  C5, as the code has it: for an admissible parameter set that has a steady state, the
  drift \<open>s f(k) - (g+n+delta) k\<close> at a capital stock \<open>k > 0\<close> is zero exactly at the steady
  state, negative above it and positive below it.  A Cobb-Douglas model always has one;
  a CES model has one exactly when \<open>alpha < ((g+n+delta)/s)^rho\<close>, and otherwise its
  drift has no zero.
\<close>

theorem drift_sign_at_steady_state:
  assumes "admissible alpha s g n delta" and "0 < k"
  shows "(\<exists>d. k_dot (cobb_douglas_output alpha) s g n delta k = Val d \<and>
             (d = 0 \<longleftrightarrow> k = steady_state alpha s g n delta) \<and>
             (steady_state alpha s g n delta < k \<longrightarrow> d < 0) \<and>
             (k < steady_state alpha s g n delta \<longrightarrow> 0 < d)) \<and>
         (sigma \<noteq> 0 \<and> sigma \<noteq> 1 \<longrightarrow>
            (\<exists>d. k_dot (ces_output alpha sigma) s g n delta k = Val d \<and>
               (ces_determinate alpha sigma s g n delta \<longrightarrow>
                  (d = 0 \<longleftrightarrow> k = ces_steady_state alpha sigma s g n delta) \<and>
                  (ces_steady_state alpha sigma s g n delta < k \<longrightarrow> d < 0) \<and>
                  (k < ces_steady_state alpha sigma s g n delta \<longrightarrow> 0 < d)) \<and>
               (\<not> ces_determinate alpha sigma s g n delta \<longrightarrow> d \<noteq> 0)))"
proof (intro conjI impI)
  show "\<exists>d. k_dot (cobb_douglas_output alpha) s g n delta k = Val d \<and>
             (d = 0 \<longleftrightarrow> k = steady_state alpha s g n delta) \<and>
             (steady_state alpha s g n delta < k \<longrightarrow> d < 0) \<and>
             (k < steady_state alpha s g n delta \<longrightarrow> 0 < d)"
    using cobb_douglas_drift_sign[OF assms] by (simp add: k_dot_cobb_douglas)
next
  assume sg: "sigma \<noteq> 0 \<and> sigma \<noteq> 1"
  then have s0: "sigma \<noteq> 0" and s1: "sigma \<noteq> 1" by simp_all
  show "\<exists>d. k_dot (ces_output alpha sigma) s g n delta k = Val d \<and>
               (ces_determinate alpha sigma s g n delta \<longrightarrow>
                  (d = 0 \<longleftrightarrow> k = ces_steady_state alpha sigma s g n delta) \<and>
                  (ces_steady_state alpha sigma s g n delta < k \<longrightarrow> d < 0) \<and>
                  (k < ces_steady_state alpha sigma s g n delta \<longrightarrow> 0 < d)) \<and>
               (\<not> ces_determinate alpha sigma s g n delta \<longrightarrow> d \<noteq> 0)"
    unfolding k_dot_ces[OF s0 s1]
    using ces_drift_sign[OF assms s0 s1] by blast
qed

lemma powr_minus_one: "0 < x \<Longrightarrow> x powr (- 1) = 1 / (x::real)"
  by (simp add: powr_minus inverse_eq_divide)

lemma example_ces_determinate:
  "ces_determinate (1/2) (1/2) (1/5) (1/100) (1/100) (3/100)"
  "ces_steady_state (1/2) (1/2) (1/5) (1/100) (1/100) (3/100) = 7"
  "\<not> ces_determinate (1/2) 2 (1/5) (1/100) (1/100) (3/100)"
  by (simp_all add: ces_determinate_def ces_steady_state_def powr_minus_one powr_half_sqrt
      real_sqrt_divide)

theorem drift_sign_at_steady_state_witness:
  "admissible (1/2) (1/5) (1/100) (1/100) (3/100) \<and>
   steady_state (1/2) (1/5) (1/100) (1/100) (3/100) = 16 \<and>
   (\<exists>d. k_dot (cobb_douglas_output (1/2)) (1/5) (1/100) (1/100) (3/100) 1 = Val d \<and> 0 < d) \<and>
   ces_determinate (1/2) (1/2) (1/5) (1/100) (1/100) (3/100) \<and>
   ces_steady_state (1/2) (1/2) (1/5) (1/100) (1/100) (3/100) = 7 \<and>
   (\<exists>d. k_dot (ces_output (1/2) (1/2)) (1/5) (1/100) (1/100) (3/100) 1 = Val d \<and> 0 < d) \<and>
   (\<exists>d. k_dot (ces_output (1/2) (1/2)) (1/5) (1/100) (1/100) (3/100) 8 = Val d \<and> d < 0) \<and>
   \<not> ces_determinate (1/2) 2 (1/5) (1/100) (1/100) (3/100) \<and>
   (\<exists>d. k_dot (ces_output (1/2) 2) (1/5) (1/100) (1/100) (3/100) 1 = Val d \<and> d \<noteq> 0)"
proof -
  have a: "admissible (1/2) (1/5) (1/100) (1/100) (3/100)" by (simp add: admissible_def)
  have k1: "(0::real) < 1" and k8: "(0::real) < 8" by simp_all
  have s: "steady_state (1/2) (1/5) (1/100) (1/100) (3/100) = 16" by (simp add: steady_state_def)
  note c = example_ces_determinate
  from drift_sign_at_steady_state[OF a k1, of "1/2"] s c
  have 1: "\<exists>d. k_dot (cobb_douglas_output (1/2)) (1/5) (1/100) (1/100) (3/100) 1 = Val d \<and> 0 < d"
    and 2: "\<exists>d. k_dot (ces_output (1/2) (1/2)) (1/5) (1/100) (1/100) (3/100) 1 = Val d \<and> 0 < d"
    by auto
  from drift_sign_at_steady_state[OF a k8, of "1/2"] c
  have 3: "\<exists>d. k_dot (ces_output (1/2) (1/2)) (1/5) (1/100) (1/100) (3/100) 8 = Val d \<and> d < 0"
    by auto
  from drift_sign_at_steady_state[OF a k1, of 2] c
  have 4: "\<exists>d. k_dot (ces_output (1/2) 2) (1/5) (1/100) (1/100) (3/100) 1 = Val d \<and> d \<noteq> 0"
    by auto
  from a s c 1 2 3 4 show ?thesis by blast
qed

text \<open>
  An admissible parameter set of the CES model need not have a steady state: with
  \<open>alpha = 1/2\<close>, \<open>sigma = 2\<close>, \<open>s = 1/5\<close> and \<open>g + n + delta = 1/20\<close> the drift of
  the notebook's CES production is \<open>(2 sqrt k + 1) / 20\<close>, which has no zero.
\<close>

theorem ces_drift_never_zero:
  "admissible (1/2) (1/5) (1/100) (1/100) (3/100) \<and>
   \<not> (\<exists>k>0. k_dot (ces_output (1/2) 2) (1/5) (1/100) (1/100) (3/100) k = Val 0)"
proof
  show "admissible (1/2) (1/5) (1/100) (1/100) (3/100)" by (simp add: admissible_def)
  show "\<not> (\<exists>k>0. k_dot (ces_output (1/2) 2) (1/5) (1/100) (1/100) (3/100) k = Val 0)"
  proof
    assume "\<exists>k>0. k_dot (ces_output (1/2) 2) (1/5) (1/100) (1/100) (3/100) k = Val 0"
    then obtain k where k: "0 < k"
      "k_dot (ces_output (1/2) 2) (1/5) (1/100) (1/100) (3/100) k = Val 0" by blast
    then have "(2 * sqrt k + 1) / 20 = 0" by (simp add: ces_drift_example)
    moreover have "0 < sqrt k" using k by simp
    ultimately show False by simp
  qed
qed

subsection \<open>CES output as the elasticity of substitution goes to one\<close>

lemma ces_log_deriv:
  fixes a K B :: real
  assumes "0 < K" "0 < B"
  shows "((\<lambda>r. ln (a * exp (r * ln K) + (1 - a) * exp (r * ln B)))
            has_real_derivative (a * ln K + (1 - a) * ln B)) (at 0)"
  by (auto intro!: derivative_eq_intros)

lemma ces_rho_limit:
  fixes a K B :: real
  assumes K: "0 < K" and B: "0 < B" and a: "0 < a" "a < 1"
  shows "((\<lambda>r. (a * K powr r + (1 - a) * B powr r) powr (1 / r))
            \<longlongrightarrow> K powr a * B powr (1 - a)) (at 0)"
proof -
  let ?g = "\<lambda>r. a * exp (r * ln K) + (1 - a) * exp (r * ln B)"
  have gpos: "0 < ?g r" for r
    using a by (intro add_pos_pos mult_pos_pos) simp_all
  have "(\<lambda>h. (ln (?g (0 + h)) - ln (?g 0)) / h) \<midarrow>0\<rightarrow> a * ln K + (1 - a) * ln B"
    using ces_log_deriv[OF K B, of a] unfolding DERIV_def .
  then have "(\<lambda>r. ln (?g r) / r) \<midarrow>0\<rightarrow> a * ln K + (1 - a) * ln B"
    by simp
  then have "(\<lambda>r. exp (ln (?g r) / r)) \<midarrow>0\<rightarrow> exp (a * ln K + (1 - a) * ln B)"
    by (rule tendsto_exp)
  moreover have "exp (a * ln K + (1 - a) * ln B) = K powr a * B powr (1 - a)"
    using K B by (simp add: powr_def exp_add)
  moreover have "(a * K powr r + (1 - a) * B powr r) powr (1 / r) = exp (ln (?g r) / r)" for r
  proof -
    have "a * K powr r + (1 - a) * B powr r = ?g r" using K B by (simp add: powr_def)
    then show ?thesis using gpos[of r] by (simp add: powr_def)
  qed
  ultimately show ?thesis by simp
qed

lemma rho_filterlim: "filterlim (\<lambda>sigma::real. (sigma - 1) / sigma) (at 0) (at 1)"
  unfolding filterlim_at
proof
  have "((\<lambda>sigma::real. (sigma - 1) / sigma) \<longlongrightarrow> (1 - 1) / 1) (at 1)"
    by (intro tendsto_intros) simp_all
  then show "((\<lambda>sigma::real. (sigma - 1) / sigma) \<longlongrightarrow> 0) (at 1)" by simp
  show "\<forall>\<^sub>F sigma::real in at 1. (sigma - 1) / sigma \<in> UNIV \<and> (sigma - 1) / sigma \<noteq> 0"
    unfolding eventually_at by (rule exI[of _ 1]) (auto simp: dist_real_def)
qed

lemma ces_sigma_limit:
  fixes alpha A K L :: real
  assumes "0 < K" "0 < A * L" "0 < alpha" "alpha < 1"
  shows "((\<lambda>sigma. val (ces_output alpha sigma A K L)) \<longlongrightarrow> val (cobb_douglas_output alpha A K L)) (at 1)"
proof -
  let ?F = "\<lambda>r. (alpha * K powr r + (1 - alpha) * (A * L) powr r) powr (1 / r)"
  have "((\<lambda>sigma. ?F ((sigma - 1) / sigma)) \<longlongrightarrow> K powr alpha * (A * L) powr (1 - alpha)) (at 1)"
    by (rule filterlim_compose[OF ces_rho_limit[OF assms] rho_filterlim])
  moreover have "\<forall>\<^sub>F sigma in at 1. ?F ((sigma - 1) / sigma) = val (ces_output alpha sigma A K L)"
    unfolding eventually_at
    by (rule exI[of _ 1]) (auto simp: dist_real_def ces_output_def Let_def)
  ultimately show ?thesis
    by (simp add: cobb_douglas_output_def tendsto_cong)
qed

text \<open>
  C6, as the code has it: for positive capital and effective labour and \<open>0 < alpha < 1\<close>
  the CES output converges to the Cobb-Douglas output as \<open>sigma\<close> tends to 1; it has a
  value at every \<open>sigma\<close> other than 0 and 1, and none at \<open>sigma = 1\<close>, where the exponent
  \<open>1 / rho\<close> divides by zero.
\<close>

theorem ces_limit_cobb_douglas:
  assumes "0 < K" and "0 < A * L" and "0 < alpha" and "alpha < 1"
  shows "((\<lambda>sigma. val (ces_output alpha sigma A K L))
            \<longlongrightarrow> val (cobb_douglas_output alpha A K L)) (at 1) \<and>
         (\<forall>sigma. sigma \<noteq> 0 \<and> sigma \<noteq> 1 \<longrightarrow> ces_output alpha sigma A K L \<noteq> NaN) \<and>
         ces_output alpha 1 A K L = NaN"
  using ces_sigma_limit[OF assms] by (simp add: ces_output_def Let_def)

theorem ces_limit_cobb_douglas_witness:
  "(0::real) < 4 \<and> (0::real) < 1 * 1 \<and> (0::real) < 1/2 \<and> (1/2::real) < 1 \<and>
   ((\<lambda>sigma. val (ces_output (1/2) sigma 1 4 1)) \<longlongrightarrow> 2) (at 1) \<and>
   ces_output (1/2) (1/2) 1 4 1 \<noteq> NaN \<and>
   ces_output (1/2) 1 1 4 1 = NaN"
proof -
  have h: "(0::real) < 4" "(0::real) < 1 * 1" "(0::real) < 1/2" "(1/2::real) < 1" by simp_all
  have v: "val (cobb_douglas_output (1/2) 1 4 1) = 2"
    by (simp add: cobb_douglas_output_def powr_half_sqrt)
  from ces_limit_cobb_douglas[OF h] v h show ?thesis by auto
qed

text \<open>
  At \<open>sigma = 1\<close> the expression \<open>ces_output\<close> has no value, while the Cobb-Douglas output
  of the same inputs is 2.
\<close>

theorem ces_output_at_one:
  "ces_output (1/2) 1 1 4 1 = NaN \<and> cobb_douglas_output (1/2) 1 4 1 = Val 2"
  by (simp add: ces_output_def cobb_douglas_output_def powr_half_sqrt)

subsection \<open>The parameter vector\<close>

lemma length7_cases:
  assumes "length a = 7"
  obtains a0 a1 a2 a3 a4 a5 a6 where "a = [a0, a1, a2, a3, a4, a5, a6]"
proof -
  from assms obtain a0 r0 where "a = a0 # r0" "length r0 = 6" by (cases a) auto
  moreover then obtain a1 r1 where "r0 = a1 # r1" "length r1 = 5" by (cases r0) auto
  moreover then obtain a2 r2 where "r1 = a2 # r2" "length r2 = 4" by (cases r1) auto
  moreover then obtain a3 r3 where "r2 = a3 # r3" "length r3 = 3" by (cases r2) auto
  moreover then obtain a4 r4 where "r3 = a4 # r4" "length r4 = 2" by (cases r3) auto
  moreover then obtain a5 r5 where "r4 = a5 # r5" "length r5 = 1" by (cases r4) auto
  moreover then obtain a6 where "r5 = [a6]" by (cases r5) auto
  ultimately show thesis using that by blast
qed

lemma array_to_params7:
  "array_to_params [a0, a1, a2, a3, a4, a5, a6] =
     [''g'' \<mapsto> a0, ''n'' \<mapsto> a1, ''s'' \<mapsto> a2, ''alpha'' \<mapsto> a3, ''delta'' \<mapsto> a4,
      ''sigma'' \<mapsto> a5, ''sigma_eps'' \<mapsto> a6]"
  by (rule ext) (simp add: array_to_params_def keys_def)

lemma params_to_array_roundtrip:
  assumes "length a = 7"
  shows "params_to_array (array_to_params a) = Inr a"
proof -
  from assms obtain a0 a1 a2 a3 a4 a5 a6 where a: "a = [a0, a1, a2, a3, a4, a5, a6]"
    by (rule length7_cases)
  show ?thesis unfolding a array_to_params7 by (simp add: params_to_array_def)
qed

lemma array_to_params_roundtrip:
  assumes "set keys \<subseteq> dom p"
  shows "\<exists>a. params_to_array p = Inr a \<and> length a = 7 \<and>
             (\<forall>k \<in> set keys. array_to_params a k = p k)"
proof -
  from assms obtain g n s al de si se where
    "p ''g'' = Some g" "p ''n'' = Some n" "p ''s'' = Some s" "p ''alpha'' = Some al"
    "p ''delta'' = Some de" "p ''sigma'' = Some si" "p ''sigma_eps'' = Some se"
    by (auto simp: keys_def dom_def)
  then show ?thesis
    by (simp add: params_to_array_def array_to_params7) (simp add: keys_def)
qed

text \<open>
  C10: \<open>_params_to_array\<close> and \<open>_array_to_params\<close> are mutually inverse on the seven
  estimation parameters: a 7-element array survives the trip through the dictionary, and
  a dictionary holding the seven keys is recovered on those keys from its array.
\<close>

theorem params_array_inverse:
  "(length a = 7 \<longrightarrow> params_to_array (array_to_params a) = Inr a) \<and>
   (set keys \<subseteq> dom p \<longrightarrow>
      (\<exists>b. params_to_array p = Inr b \<and> (\<forall>k \<in> set keys. array_to_params b k = p k)))"
  using params_to_array_roundtrip array_to_params_roundtrip by blast

theorem params_array_inverse_witness:
  "length [Val 1, Val 2, Val 3, Val 4, Val 5, Val 6, Val 7] = 7 \<and>
   params_to_array (array_to_params [Val 1, Val 2, Val 3, Val 4, Val 5, Val 6, Val 7])
     = Inr [Val 1, Val 2, Val 3, Val 4, Val 5, Val 6, Val 7] \<and>
   set keys \<subseteq> dom ((array_to_params [Val 1, Val 2, Val 3, Val 4, Val 5, Val 6, Val 7])(''A0'' \<mapsto> Val 9)) \<and>
   (\<exists>b. params_to_array ((array_to_params [Val 1, Val 2, Val 3, Val 4, Val 5, Val 6, Val 7])(''A0'' \<mapsto> Val 9)) = Inr b \<and>
        array_to_params b ''alpha'' = Some (Val 4) \<and> array_to_params b ''A0'' = None)"
proof -
  let ?a = "[Val 1, Val 2, Val 3, Val 4, Val 5, Val 6, Val 7]"
  let ?p = "(array_to_params ?a)(''A0'' \<mapsto> Val 9)"
  have l: "length ?a = 7" by simp
  have d: "set keys \<subseteq> dom ?p" by (simp add: array_to_params7 keys_def)
  from params_array_inverse [of ?a ?p] l d
  have r: "params_to_array (array_to_params ?a) = Inr ?a"
    and "\<exists>b. params_to_array ?p = Inr b \<and> (\<forall>k \<in> set keys. array_to_params b k = ?p k)"
    by blast+
  then obtain b where b: "params_to_array ?p = Inr b" "\<forall>k \<in> set keys. array_to_params b k = ?p k"
    by blast
  have "b = ?a" using b(1) by (simp add: params_to_array_def array_to_params7)
  then have "array_to_params b ''alpha'' = Some (Val 4)" "array_to_params b ''A0'' = None"
    by (simp_all add: array_to_params7)
  with l d r b(1) show ?thesis by blast
qed

subsection \<open>Rounding to binary64\<close>

lemma binade_iff:
  assumes "x \<noteq> 0"
  shows "binade x = e \<longleftrightarrow> 2 powi e \<le> \<bar>x\<bar> \<and> \<bar>x\<bar> < 2 powi (e + 1)"
proof -
  have "2 powr real_of_int k = (2::real) powi k" for k
    by (rule powr_real_of_int') simp_all
  from this[of e] this[of "e + 1"] show ?thesis
    unfolding binade_def using assms floor_log_eq_powr_iff[of "\<bar>x\<bar>" 2 e] by simp
qed



lemma round_even_of_int [simp]: "round_even (of_int z) = z"
  by (simp add: round_even_def)











lemma round64_representable:
  assumes "\<bar>m\<bar> < 2 ^ 53"
  shows "round64 (of_int m * 2 powi k) = of_int m * 2 powi k"
proof (cases "m = 0")
  case True
  then show ?thesis by (simp add: round64_def)
next
  case False
  define x :: real where "x = of_int m * 2 powi k"
  define e where "e = binade x"
  have x0: "x \<noteq> 0" using False by (simp add: x_def)
  have "2 powi e \<le> \<bar>x\<bar>" using binade_iff[OF x0, of e] by (simp add: e_def)
  also have "\<bar>x\<bar> = \<bar>of_int m\<bar> * 2 powi k" by (simp add: x_def abs_mult)
  also have "\<dots> < 2 ^ 53 * 2 powi k"
  proof (rule mult_strict_right_mono)
    have "real_of_int \<bar>m\<bar> < real_of_int (2 ^ 53)" using assms by (simp only: of_int_less_iff)
    then show "\<bar>real_of_int m\<bar> < 2 ^ 53" by simp
    show "(0::real) < 2 powi k" by (rule zero_less_power_int) simp
  qed
  also have "\<dots> = (2::real) powi (53 + k)" by (simp add: power_int_add)
  finally have lt: "(2::real) powi e < 2 powi (53 + k)" .
  have "e < 53 + k"
  proof (rule ccontr)
    assume "\<not> e < 53 + k"
    then have "53 + k \<le> e" by simp
    then have "(2::real) powi (53 + k) \<le> 2 powi e" by (intro power_int_increasing) simp_all
    with lt show False by simp
  qed
  then have j: "0 \<le> k - (e - 52)" by simp
  define j where "j = nat (k - (e - 52))"
  have kj: "k = (e - 52) + int j" using j by (simp add: j_def)
  have "x / 2 powi (e - 52) = of_int m * 2 powi (int j)"
    unfolding x_def by (subst kj) (simp add: power_int_add)
  also have "\<dots> = of_int (m * 2 ^ j)" by simp
  finally have "round_even (x / 2 powi (e - 52)) = m * 2 ^ j" by (simp only: round_even_of_int)
  then have "round64 x = of_int (m * 2 ^ j) * 2 powi (e - 52)"
    using x0 by (simp add: round64_def Let_def e_def)
  also have "\<dots> = of_int m * 2 powi (int j + (e - 52))" by (simp add: power_int_add)
  also have "int j + (e - 52) = k" using kj by simp
  finally show ?thesis by (simp add: x_def)
qed

lemma round64_half: "round64 (1/2) = 1/2"
  using round64_representable[of 1 "-1"] by (simp add: power_int_minus)


lemma round64_dyadic:
  "round64 (1/4) = 1/4" "round64 (3/4) = 3/4" "round64 (5/4) = 5/4" "round64 (3/2) = 3/2"
  "round64 (1/16) = 1/16" "round64 (1/8) = 1/8" "round64 (3/16) = 3/16" "round64 1 = 1"
  using round64_representable[of 1 "-2"] round64_representable[of 3 "-2"]
    round64_representable[of 5 "-2"] round64_representable[of 3 "-1"]
    round64_representable[of 1 "-4"] round64_representable[of 1 "-3"]
    round64_representable[of 3 "-4"] round64_representable[of 1 0]
  by (simp_all add: power_int_minus)

subsection \<open>Moment matching: the capital share\<close>

lemma present_rows_zip:
  assumes "length x = length y" "NaN \<notin> set x" "NaN \<notin> set y"
  shows "present_rows x y = zip (map val x) (map val y)"
  using assms
proof (induction x y rule: list_induct2)
  case Nil
  then show ?case by simp
next
  case (Cons a x b y)
  then show ?case by (cases a; cases b) simp_all
qed

lemma pd_ols_empty: "pd_ols [] [] = Inl ValueError"
  by (simp add: pd_ols_def)

lemma match_moments_unfold:
  assumes "data iso3_code = Some frame"
    and "calibration_window required_vars frame bounds = Inr w"
    and "pd_ols (map np_log (map emp w)) (linspace (length w)) = Inr res"
    and "pd_ols (map np_log (evaluate_solow_residual m (map rgdpna w) (map rkna w) (map emp w)))
           (linspace (length w)) = Inr res'"
  shows "match_moments m data iso3_code bounds =
     Inr [''s'' \<mapsto> mean (map csh_i w),
          ''alpha'' \<mapsto> mean (map (nsub (Val 1)) (map labsh w)),
          ''delta'' \<mapsto> mean (map delta_k w),
          ''n'' \<mapsto> res ! 0,
          ''L0'' \<mapsto> np_exp (res ! 1),
          ''g'' \<mapsto> res' ! 0,
          ''A0'' \<mapsto> np_exp (res' ! 1)]"
  using assms by (simp add: match_moments_def Let_def)

lemma match_moments_regress:
  assumes "match_moments m data iso3_code bounds = Inr p"
    and "data iso3_code = Some frame"
    and "calibration_window required_vars frame bounds = Inr w"
  obtains res res' where
    "pd_ols (map np_log (map emp w)) (linspace (length w)) = Inr res"
    "pd_ols (map np_log (evaluate_solow_residual m (map rgdpna w) (map rkna w) (map emp w)))
           (linspace (length w)) = Inr res'"
  using assms by (auto simp: match_moments_def Let_def split: sum.splits)

lemma match_moments_cases:
  assumes "match_moments m data iso3_code bounds = Inr p"
  obtains frame w where "data iso3_code = Some frame"
    and "calibration_window required_vars frame bounds = Inr w"
  using assms by (auto simp: match_moments_def split: option.splits sum.splits)

lemma match_moments_empty_window:
  assumes "data iso3_code = Some frame"
    and "calibration_window required_vars frame bounds = Inr []"
  shows "match_moments m data iso3_code bounds = Inl ValueError"
  using assms by (simp add: match_moments_def Let_def linspace_def pd_ols_empty)




lemma example_lookup: "example_panel ''USA'' = Some example_frame"
  by (simp add: example_panel_def)

lemma example_window:
  "calibration_window required_vars example_frame None =
     Inr [obs 2000 (Val 1) (Val (1/4)), obs 2001 (Val (exp 1)) (Val (1/2)),
      obs 2002 (Val (exp 2)) (Val (3/4))]"
  by (simp add: calibration_window_def dropna_def required_vars_def example_frame_def column_def obs_def loc_def)

lemma linspace3: "linspace (Suc (Suc (Suc 0))) = [Val 0, Val 1, Val 2]"
  by (simp add: linspace_def upt_rec)

lemma ols_up: "pd_ols [Val 0, Val 1, Val 2] [Val 0, Val 1, Val 2] = Inr [Val 1, Val 0]"
  by (simp add: pd_ols_def Let_def)

lemma ols_down: "pd_ols [Val 0, Val (-1), Val (-2)] [Val 0, Val 1, Val 2] = Inr [Val (-1), Val 0]"
  by (simp add: pd_ols_def Let_def)


lemma example_technology:
  "evaluate_solow_residual (CobbDouglasModel ces_params) [Val 1, Val 1, Val 1] [Val 1, Val 1, Val 1]
     [Val 1, Val (exp 1), Val (exp 2)] = [Val 1, Val (exp (-1)), Val (exp (-2))]"
  by (simp add: evaluate_solow_residual_def CobbDouglasModel_def ces_params_def
      cobb_douglas_residual_def exp_minus inverse_eq_divide)

lemma example_means:
  "mean [Val (1/4), Val (1/4), Val (1/4)] = Val (1/4)"
  "mean [Val (1/16), Val (1/16), Val (1/16)] = Val (1/16)"
  by (simp_all add: mean_def float_sum_def round64_dyadic round64_half)

lemma example_estimates:
  "match_moments (CobbDouglasModel ces_params) example_panel ''USA'' None =
     Inr [''s'' \<mapsto> Val (1/4), ''alpha'' \<mapsto> Val (1/2), ''delta'' \<mapsto> Val (1/16), ''n'' \<mapsto> Val 1,
          ''L0'' \<mapsto> Val 1, ''g'' \<mapsto> Val (-1), ''A0'' \<mapsto> Val 1]"
proof -
  let ?w = "[obs 2000 (Val 1) (Val (1/4)), obs 2001 (Val (exp 1)) (Val (1/2)),
      obs 2002 (Val (exp 2)) (Val (3/4))]"
  have a: "pd_ols (map np_log (map emp ?w)) (linspace (length ?w)) = Inr [Val 1, Val 0]"
    by (simp add: obs_def linspace3 ols_up)
  have b: "pd_ols (map np_log (evaluate_solow_residual (CobbDouglasModel ces_params)
             (map rgdpna ?w) (map rkna ?w) (map emp ?w))) (linspace (length ?w)) = Inr [Val (-1), Val 0]"
    by (simp add: obs_def example_technology linspace3 ols_down)
  have c: "mean (map (nsub (Val 1)) (map labsh ?w)) = Val (1/2)"
    by (simp add: obs_def mean_def float_sum_def round64_dyadic round64_half)
  show ?thesis
    unfolding match_moments_unfold[where data=example_panel and ?iso3_code="''USA''",
        OF example_lookup example_window a b] c
    by (simp add: obs_def example_means)
qed









subsection \<open>An empty calibration window\<close>

lemma window_insufficient:
  "dropna vars frame = [] \<Longrightarrow> calibration_window vars frame bounds = Inl (AssertionError insufficient)"
  by (simp add: calibration_window_def)

lemma match_moments_insufficient:
  assumes "data iso3_code = Some frame" and "dropna required_vars frame = []"
  shows "match_moments m data iso3_code bounds = Inl (AssertionError insufficient)"
  using assms by (simp add: match_moments_def window_insufficient)

lemma maximize_likelihood_insufficient_ml:
  assumes d: "data iso3_code = Some frame" and e: "dropna required_vars_ml frame = []"
  shows "maximize_likelihood minimize m data iso3_code bounds method sigma0 sigma_eps0
           = (Inl (AssertionError insufficient), m)"
  using assms by (simp add: maximize_likelihood_def window_insufficient)

lemma dropna_required_subset:
  "set (dropna required_vars frame) \<subseteq> set (dropna required_vars_ml frame)"
  by (auto simp: dropna_def required_vars_def required_vars_ml_def)

lemma window_bounds:
  assumes "dropna vars frame \<noteq> []"
  shows "calibration_window vars frame (Some b) = Inr (loc (fst b) (snd b) (dropna vars frame))"
  using assms by (simp add: calibration_window_def Let_def case_prod_beta)

lemma maximize_likelihood_empty_window:
  assumes d: "data iso3_code = Some frame"
    and w: "calibration_window required_vars_ml frame (Some b) = Inr []"
  shows "maximize_likelihood minimize m data iso3_code (Some b) method sigma0 sigma_eps0
           = (Inl (if dropna required_vars frame = [] then AssertionError insufficient else ValueError), m)"
proof -
  have ne: "dropna required_vars_ml frame \<noteq> []"
    using w by (auto simp: calibration_window_def)
  from w have e: "loc (fst b) (snd b) (dropna required_vars_ml frame) = []"
    unfolding window_bounds[OF ne] by simp
  have mm: "match_moments m data iso3_code (Some b)
        = Inl (if dropna required_vars frame = [] then AssertionError insufficient else ValueError)"
  proof (cases "dropna required_vars frame = []")
    case True
    then show ?thesis
      using match_moments_insufficient[where data=data and iso3_code=iso3_code, OF d True] by simp
  next
    case False
    have "loc (fst b) (snd b) (dropna required_vars frame) = []"
      using e dropna_required_subset[of frame] unfolding loc_def filter_empty_conv by blast
    then have "calibration_window required_vars frame (Some b) = Inr []"
      unfolding window_bounds[OF False] by simp
    from match_moments_empty_window[where data=data and iso3_code=iso3_code, OF d this] False
    show ?thesis by simp
  qed
  then have "cobb_douglas_initial_guess m data iso3_code (Some b) sigma0 sigma_eps0
        = Inl (if dropna required_vars frame = [] then AssertionError insufficient else ValueError)"
    by (simp add: cobb_douglas_initial_guess_def)
  with d w show ?thesis by (simp add: maximize_likelihood_def Let_def)
qed

lemma example_complete_rows: "dropna required_vars example_frame \<noteq> []"
  by (simp add: dropna_def required_vars_def example_frame_def column_def obs_def)

lemma empty_window_example:
  "calibration_window required_vars example_frame (Some (Some 2010, Some 2020)) = Inr []"
  "calibration_window required_vars_ml example_frame (Some (Some 2010, Some 2020)) = Inr []"
  by (simp_all add: calibration_window_def dropna_def required_vars_def required_vars_ml_def
      example_frame_def column_def obs_def loc_def)

text \<open>
  C2, as the code has it: neither routine returns estimates from an empty window.  When
  no row of the country has all the required series, both raise the assertion
  "Insufficient data to estimate model parameters", before the bounds are looked at.
  When there are such rows and none of them lies within the bounds, the assertion has
  passed and nothing repeats it: \<open>match_moments\<close> fails with the ValueError of its first
  regression, and \<open>maximize_likelihood\<close> with the failure of its call of
  \<open>match_moments\<close>.
\<close>

theorem insufficient_data_signalled:
  assumes "data iso3_code = Some frame"
  shows "(dropna required_vars frame = [] \<longrightarrow>
            match_moments m data iso3_code bounds = Inl (AssertionError insufficient)) \<and>
         (calibration_window required_vars frame bounds = Inr [] \<longrightarrow>
            match_moments m data iso3_code bounds = Inl ValueError) \<and>
         (dropna required_vars_ml frame = [] \<longrightarrow>
            maximize_likelihood minimize m data iso3_code bounds method sigma0 sigma_eps0
              = (Inl (AssertionError insufficient), m)) \<and>
         (bounds \<noteq> None \<and> calibration_window required_vars_ml frame bounds = Inr [] \<longrightarrow>
            maximize_likelihood minimize m data iso3_code bounds method sigma0 sigma_eps0
              = (Inl (if dropna required_vars frame = [] then AssertionError insufficient
                      else ValueError), m))"
proof (intro conjI impI)
  assume "dropna required_vars frame = []"
  then show "match_moments m data iso3_code bounds = Inl (AssertionError insufficient)"
    by (rule match_moments_insufficient[where data=data and iso3_code=iso3_code, OF assms])
next
  assume "calibration_window required_vars frame bounds = Inr []"
  then show "match_moments m data iso3_code bounds = Inl ValueError"
    by (rule match_moments_empty_window[where data=data and iso3_code=iso3_code, OF assms])
next
  assume "dropna required_vars_ml frame = []"
  then show "maximize_likelihood minimize m data iso3_code bounds method sigma0 sigma_eps0
              = (Inl (AssertionError insufficient), m)"
    by (rule maximize_likelihood_insufficient_ml[where data=data and iso3_code=iso3_code, OF assms])
next
  assume a: "bounds \<noteq> None \<and> calibration_window required_vars_ml frame bounds = Inr []"
  then obtain b where b: "bounds = Some b" by auto
  with a have "calibration_window required_vars_ml frame (Some b) = Inr []" by simp
  from maximize_likelihood_empty_window[where data=data and iso3_code=iso3_code, OF assms this]
  show "maximize_likelihood minimize m data iso3_code bounds method sigma0 sigma_eps0
              = (Inl (if dropna required_vars frame = [] then AssertionError insufficient
                      else ValueError), m)"
    unfolding b .
qed

theorem insufficient_data_signalled_witness:
  "[''USA'' \<mapsto> [obs 2003 (Val 1) NaN]] ''USA'' = Some [obs 2003 (Val 1) NaN] \<and>
   dropna required_vars [obs 2003 (Val 1) NaN] = [] \<and>
   dropna required_vars_ml [obs 2003 (Val 1) NaN] = [] \<and>
   match_moments (CobbDouglasModel ces_params) [''USA'' \<mapsto> [obs 2003 (Val 1) NaN]] ''USA'' None
     = Inl (AssertionError insufficient) \<and>
   maximize_likelihood stalled_optimizer (CobbDouglasModel ces_params)
       [''USA'' \<mapsto> [obs 2003 (Val 1) NaN]] ''USA'' None ''BFGS'' (Val (101/100)) (Val (1/100))
     = (Inl (AssertionError insufficient), CobbDouglasModel ces_params) \<and>
   dropna required_vars example_frame \<noteq> [] \<and>
   calibration_window required_vars example_frame (Some (Some 2005, Some 2006)) = Inr [] \<and>
   calibration_window required_vars_ml example_frame (Some (Some 2005, Some 2006)) = Inr [] \<and>
   match_moments (CobbDouglasModel ces_params) example_panel ''USA'' (Some (Some 2005, Some 2006))
     = Inl ValueError \<and>
   maximize_likelihood stalled_optimizer (CobbDouglasModel ces_params) example_panel ''USA''
       (Some (Some 2005, Some 2006)) ''BFGS'' (Val (101/100)) (Val (1/100))
     = (Inl ValueError, CobbDouglasModel ces_params)"
proof -
  let ?d = "[''USA'' \<mapsto> [obs 2003 (Val 1) NaN]]"
  have d: "?d ''USA'' = Some [obs 2003 (Val 1) NaN]" by simp
  have e: "dropna required_vars [obs 2003 (Val 1) NaN] = []"
    by (simp add: dropna_def required_vars_def column_def obs_def)
  have f: "dropna required_vars_ml [obs 2003 (Val 1) NaN] = []"
    by (simp add: dropna_def required_vars_ml_def column_def obs_def)
  note g = example_complete_rows
  have h: "calibration_window required_vars example_frame (Some (Some 2005, Some 2006)) = Inr []"
    "calibration_window required_vars_ml example_frame (Some (Some 2005, Some 2006)) = Inr []"
    by (simp_all add: calibration_window_def dropna_def required_vars_def required_vars_ml_def
      example_frame_def column_def obs_def loc_def)
  have i: "Some (Some (2005::int), Some (2006::int)) \<noteq> None" by simp
  from insufficient_data_signalled[where data="?d" and ?iso3_code="''USA''", OF d] e f
  have 1: "match_moments (CobbDouglasModel ces_params) ?d ''USA'' None = Inl (AssertionError insufficient)"
    and 2: "maximize_likelihood stalled_optimizer (CobbDouglasModel ces_params)
       ?d ''USA'' None ''BFGS'' (Val (101/100)) (Val (1/100))
     = (Inl (AssertionError insufficient), CobbDouglasModel ces_params)"
    by blast+
  from insufficient_data_signalled[where data=example_panel and ?iso3_code="''USA''"
      and bounds="Some (Some 2005, Some 2006)", OF example_lookup] g h i
  have 3: "match_moments (CobbDouglasModel ces_params) example_panel ''USA'' (Some (Some 2005, Some 2006))
     = Inl ValueError"
    and 4: "maximize_likelihood stalled_optimizer (CobbDouglasModel ces_params) example_panel ''USA''
       (Some (Some 2005, Some 2006)) ''BFGS'' (Val (101/100)) (Val (1/100))
     = (Inl ValueError, CobbDouglasModel ces_params)"
    by auto
  from d e f g h 1 2 3 4 show ?thesis by blast
qed

text \<open>
  Bounds that lie outside the years of the data leave an empty window although the
  country has complete rows.  The assertion does not fire; the error that ends the two
  routines is the ValueError of the regression.
\<close>

theorem empty_window_value_error:
  "dropna required_vars example_frame \<noteq> [] \<and>
   calibration_window required_vars example_frame (Some (Some 2010, Some 2020)) = Inr [] \<and>
   match_moments (CobbDouglasModel ces_params) example_panel ''USA'' (Some (Some 2010, Some 2020))
     = Inl ValueError \<and>
   maximize_likelihood stalled_optimizer (CobbDouglasModel ces_params) example_panel ''USA''
       (Some (Some 2010, Some 2020)) ''BFGS'' (Val (101/100)) (Val (1/100))
     = (Inl ValueError, CobbDouglasModel ces_params)"
proof -
  note g = example_complete_rows
  from match_moments_empty_window[where data=example_panel and ?iso3_code="''USA''",
      OF example_lookup empty_window_example(1)]
  have 1: "match_moments (CobbDouglasModel ces_params) example_panel ''USA'' (Some (Some 2010, Some 2020))
     = Inl ValueError" .
  from maximize_likelihood_empty_window[where data=example_panel and ?iso3_code="''USA''",
      OF example_lookup empty_window_example(2)] g
  have 2: "maximize_likelihood stalled_optimizer (CobbDouglasModel ces_params) example_panel ''USA''
       (Some (Some 2010, Some 2020)) ''BFGS'' (Val (101/100)) (Val (1/100))
     = (Inl ValueError, CobbDouglasModel ces_params)"
    by simp
  from g empty_window_example(1) 1 2 show ?thesis by blast
qed

subsection \<open>Moment matching: the two regressions\<close>

lemma ssr_expand:
  assumes "length xs = length ys"
  shows "ssr ys xs a b =
      sum_list (map (\<lambda>v. v * v) ys) - 2 * a * sum_list ys
        - 2 * b * sum_list (map (\<lambda>(u, v). u * v) (zip xs ys))
        + real (length xs) * a * a + 2 * a * b * sum_list xs
        + b * b * sum_list (map (\<lambda>u. u * u) xs)"
  using assms unfolding ssr_def
  by (induction xs ys rule: list_induct2) (simp_all add: power2_eq_square algebra_simps)

lemma sum_squares_line:
  "sum_list (map (\<lambda>u. (p + q * u)\<^sup>2) xs) =
     real (length xs) * p * p + 2 * p * q * sum_list xs + q * q * sum_list (map (\<lambda>u. u * u) xs)"
  by (induction xs) (simp_all add: power2_eq_square algebra_simps)

lemma normal_equations_minimise:
  fixes a b :: real
  assumes len: "length xs = length ys"
    and n1: "sum_list ys = real (length xs) * a + b * sum_list xs"
    and n2: "sum_list (map (\<lambda>(u, v). u * v) (zip xs ys)) = a * sum_list xs + b * sum_list (map (\<lambda>u. u * u) xs)"
  shows "ssr ys xs a b \<le> ssr ys xs a' b'"
proof -
  have "ssr ys xs a' b' - ssr ys xs a b = sum_list (map (\<lambda>u. ((a' - a) + (b' - b) * u)\<^sup>2) xs)"
    unfolding ssr_expand[OF len] sum_squares_line n1 n2 by (simp add: algebra_simps)
  moreover have "0 \<le> sum_list (map (\<lambda>u. ((a' - a) + (b' - b) * u)\<^sup>2) xs)"
    by (rule sum_list_nonneg) auto
  ultimately show ?thesis by linarith
qed

lemma closed_form_normal_equations:
  fixes N Sx Sy Sxx Sxy :: real
  assumes D: "N * Sxx - Sx * Sx \<noteq> 0" and N: "N \<noteq> 0"
  defines "slope \<equiv> (N * Sxy - Sx * Sy) / (N * Sxx - Sx * Sx)"
  defines "intercept \<equiv> (Sy - slope * Sx) / N"
  shows "Sy = N * intercept + slope * Sx" and "Sxy = intercept * Sx + slope * Sxx"
proof -
  show 1: "Sy = N * intercept + slope * Sx" using N by (simp add: intercept_def)
  have "slope * (N * Sxx - Sx * Sx) = N * Sxy - Sx * Sy" using D by (simp add: slope_def)
  then have "N * (intercept * Sx + slope * Sxx) = N * Sxy"
    using 1 by (simp add: algebra_simps)
  then show "Sxy = intercept * Sx + slope * Sxx" using N by simp
qed

lemma trend_sum: "sum_list (map real [0..<N]) = real N * (real N - 1) / 2"
  by (induction N) (simp_all add: field_simps)

lemma trend_sum_squares:
  "sum_list (map (\<lambda>u. u * u) (map real [0..<N])) = (real N - 1) * real N * (2 * real N - 1) / 6"
  by (induction N) (simp_all add: field_simps)

lemma trend_determinant:
  assumes "2 \<le> N"
  shows "real (length (map real [0..<N])) * sum_list (map (\<lambda>u. u * u) (map real [0..<N]))
           - sum_list (map real [0..<N]) * sum_list (map real [0..<N]) \<noteq> 0"
proof -
  have "real N * ((real N - 1) * real N * (2 * real N - 1) / 6)
          - (real N * (real N - 1) / 2) * (real N * (real N - 1) / 2)
        = real N * real N * (real N - 1) * (real N + 1) / 12"
    by (simp add: field_simps)
  moreover have "0 < real N * real N * (real N - 1) * (real N + 1) / 12"
    using assms by simp
  ultimately have "real N * ((real N - 1) * real N * (2 * real N - 1) / 6)
          - (real N * (real N - 1) / 2) * (real N * (real N - 1) / 2) \<noteq> 0"
    by linarith
  then show ?thesis
    unfolding trend_sum trend_sum_squares length_map length_upt diff_zero .
qed

lemma pd_ols_fit:
  assumes len: "length y = length x" and y: "NaN \<notin> set y" and x: "NaN \<notin> set x"
    and D: "real (length (map val x)) * sum_list (map (\<lambda>u. u * u) (map val x))
             - sum_list (map val x) * sum_list (map val x) \<noteq> 0"
  shows "\<exists>a b. pd_ols y x = Inr [Val b, Val a] \<and> ols_fit (map val y) (map val x) a b"
proof -
  let ?xs = "map val x" and ?ys = "map val y"
  let ?N = "real (length ?xs)"
  let ?D = "?N * sum_list (map (\<lambda>u. u * u) ?xs) - sum_list ?xs * sum_list ?xs"
  let ?b = "(?N * sum_list (map (\<lambda>(u, v). u * v) (zip ?xs ?ys)) - sum_list ?xs * sum_list ?ys) / ?D"
  let ?a = "(sum_list ?ys - ?b * sum_list ?xs) / ?N"
  have N: "?N \<noteq> 0" using D by auto
  have l: "length ?xs = length ?ys" using len by simp
  have rows: "present_rows x y = zip ?xs ?ys"
    using len x y by (intro present_rows_zip) simp_all
  have ne: "zip ?xs ?ys \<noteq> []" using N l by (cases x; cases y) auto
  have f: "map fst (zip ?xs ?ys) = ?xs" "map snd (zip ?xs ?ys) = ?ys"
    "length (zip ?xs ?ys) = length ?xs"
    using l by (simp_all del: length_map map_map)
  have eq: "pd_ols y x = Inr [Val ?b, Val ?a]"
    unfolding pd_ols_def rows Let_def f using ne D by simp
  have n1: "sum_list ?ys = ?N * ?a + ?b * sum_list ?xs"
    by (rule closed_form_normal_equations(1)[OF D N])
  have n2: "sum_list (map (\<lambda>(u, v). u * v) (zip ?xs ?ys)) = ?a * sum_list ?xs + ?b * sum_list (map (\<lambda>u. u * u) ?xs)"
    by (rule closed_form_normal_equations(2)[OF D N])
  have "ssr ?ys ?xs ?a ?b \<le> ssr ?ys ?xs a' b'" for a' b'
    by (rule normal_equations_minimise[OF l n1 n2])
  then have "ols_fit ?ys ?xs ?a ?b" by (simp add: ols_fit_def)
  with eq show ?thesis by blast
qed

lemma log_positive_series:
  assumes "\<forall>t\<in>set zs. \<exists>v>0. t = Val v"
  shows "map np_log zs = map (\<lambda>t. Val (ln (val t))) zs"
  using assms by (intro map_cong) auto

lemma pd_ols_log_trend:
  assumes pos: "\<forall>t\<in>set zs. \<exists>v>0. t = Val v" and two: "2 \<le> length zs"
  shows "\<exists>a b. pd_ols (map np_log zs) (linspace (length zs)) = Inr [Val b, Val a] \<and>
                ols_fit (map (\<lambda>t. ln (val t)) zs) (map real [0..<length zs]) a b"
proof -
  have v: "map val (linspace (length zs)) = map real [0..<length zs]"
    by (simp add: linspace_def comp_def)
  have w: "map val (map np_log zs) = map (\<lambda>t. ln (val t)) zs"
    by (simp add: log_positive_series[OF pos] comp_def)
  have "\<exists>a b. pd_ols (map np_log zs) (linspace (length zs)) = Inr [Val b, Val a] \<and>
          ols_fit (map val (map np_log zs)) (map val (linspace (length zs))) a b"
  proof (rule pd_ols_fit)
    show "length (map np_log zs) = length (linspace (length zs))" by (simp add: linspace_def)
    show "NaN \<notin> set (map np_log zs)" by (auto simp: log_positive_series[OF pos])
    show "NaN \<notin> set (linspace (length zs))" by (auto simp: linspace_def)
    show "real (length (map val (linspace (length zs)))) * sum_list (map (\<lambda>u. u * u) (map val (linspace (length zs))))
             - sum_list (map val (linspace (length zs))) * sum_list (map val (linspace (length zs))) \<noteq> 0"
      unfolding v by (rule trend_determinant[OF two])
  qed
  then show ?thesis unfolding v w .
qed

lemma length_evaluate_solow_residual:
  "length K = length Y \<Longrightarrow> length L = length Y \<Longrightarrow> length (evaluate_solow_residual m Y K L) = length Y"
  by (simp add: evaluate_solow_residual_def)

text \<open>
  C7: on a window of at least two years with positive employment and positive Solow
  residuals, \<open>n\<close> is the slope and \<open>L0\<close> the exponential of the intercept of the
  least-squares regression of log employment on a constant and the trend
  \<open>0, 1, ..., N - 1\<close>; \<open>g\<close> and \<open>A0\<close> are the same for the log of the Solow residual.
\<close>

theorem match_moments_regressions:
  assumes p: "match_moments m data iso3_code bounds = Inr p"
    and d: "data iso3_code = Some frame"
    and w: "calibration_window required_vars frame bounds = Inr w"
    and two: "2 \<le> length w"
    and labor: "\<forall>l \<in> set (map emp w). \<exists>v>0. l = Val v"
    and tech: "\<forall>t \<in> set (evaluate_solow_residual m (map rgdpna w) (map rkna w) (map emp w)).
                 \<exists>v>0. t = Val v"
  shows "\<exists>b0 b1 c0 c1.
      p ''n'' = Some (Val b1) \<and> p ''L0'' = Some (Val (exp b0)) \<and>
      ols_fit (map (\<lambda>l. ln (val l)) (map emp w)) (map real [0..<length w]) b0 b1 \<and>
      p ''g'' = Some (Val c1) \<and> p ''A0'' = Some (Val (exp c0)) \<and>
      ols_fit (map (\<lambda>t. ln (val t)) (evaluate_solow_residual m (map rgdpna w) (map rkna w) (map emp w)))
        (map real [0..<length w]) c0 c1"
proof -
  let ?labor = "map emp w"
  let ?tech = "evaluate_solow_residual m (map rgdpna w) (map rkna w) (map emp w)"
  have ll: "length ?labor = length w" by simp
  have lt: "length ?tech = length w" by (simp add: length_evaluate_solow_residual)
  from pd_ols_log_trend[OF labor] two ll obtain b0 b1 where
    b: "pd_ols (map np_log ?labor) (linspace (length w)) = Inr [Val b1, Val b0]"
       "ols_fit (map (\<lambda>l. ln (val l)) ?labor) (map real [0..<length w]) b0 b1"
    by auto
  from pd_ols_log_trend[OF tech] two lt obtain c0 c1 where
    c: "pd_ols (map np_log ?tech) (linspace (length w)) = Inr [Val c1, Val c0]"
       "ols_fit (map (\<lambda>t. ln (val t)) ?tech) (map real [0..<length w]) c0 c1"
    by auto
  from match_moments_unfold[where data=data and iso3_code=iso3_code and m=m, OF d w b(1) c(1)] p
  have "p ''n'' = Some (Val b1)" "p ''L0'' = Some (Val (exp b0))"
       "p ''g'' = Some (Val c1)" "p ''A0'' = Some (Val (exp c0))"
    by auto
  with b(2) c(2) show ?thesis by blast
qed

lemma example_labor_positive:
  "\<forall>l \<in> set (map emp [obs 2000 (Val 1) (Val (1/4)), obs 2001 (Val (exp 1)) (Val (1/2)),
      obs 2002 (Val (exp 2)) (Val (3/4))]). \<exists>v>0. l = Val v"
  by (simp add: obs_def)

lemma example_technology_positive:
  "\<forall>t \<in> set (evaluate_solow_residual (CobbDouglasModel ces_params)
       (map rgdpna [obs 2000 (Val 1) (Val (1/4)), obs 2001 (Val (exp 1)) (Val (1/2)),
      obs 2002 (Val (exp 2)) (Val (3/4))])
       (map rkna [obs 2000 (Val 1) (Val (1/4)), obs 2001 (Val (exp 1)) (Val (1/2)),
      obs 2002 (Val (exp 2)) (Val (3/4))])
       (map emp [obs 2000 (Val 1) (Val (1/4)), obs 2001 (Val (exp 1)) (Val (1/2)),
      obs 2002 (Val (exp 2)) (Val (3/4))])). \<exists>v>0. t = Val v"
  by (simp add: obs_def example_technology)

theorem match_moments_regressions_witness:
  "\<exists>p b0 b1 c0 c1.
     match_moments (CobbDouglasModel ces_params) example_panel ''USA'' None = Inr p \<and>
     p ''n'' = Some (Val 1) \<and> p ''L0'' = Some (Val 1) \<and> p ''g'' = Some (Val (- 1)) \<and>
     p ''A0'' = Some (Val 1) \<and> b1 = 1 \<and> b0 = 0 \<and> c1 = - 1 \<and> c0 = 0 \<and>
     ols_fit [0, 1, 2] [0, 1, 2] b0 b1 \<and> ols_fit [0, - 1, - 2] [0, 1, 2] c0 c1"
proof -
  let ?w = "[obs 2000 (Val 1) (Val (1/4)), obs 2001 (Val (exp 1)) (Val (1/2)),
      obs 2002 (Val (exp 2)) (Val (3/4))]"
  let ?p = "[''s'' \<mapsto> Val (1/4), ''alpha'' \<mapsto> Val (1/2), ''delta'' \<mapsto> Val (1/16), ''n'' \<mapsto> Val 1,
          ''L0'' \<mapsto> Val 1, ''g'' \<mapsto> Val (-1), ''A0'' \<mapsto> Val 1]"
  have two: "2 \<le> length ?w" by simp
  from match_moments_regressions[where data=example_panel and ?iso3_code="''USA''",
      OF example_estimates example_lookup example_window two example_labor_positive
         example_technology_positive]
  obtain b0 b1 c0 c1 where
    r: "?p ''n'' = Some (Val b1)" "?p ''L0'' = Some (Val (exp b0))"
       "ols_fit (map (\<lambda>l. ln (val l)) (map emp ?w)) (map real [0..<length ?w]) b0 b1"
       "?p ''g'' = Some (Val c1)" "?p ''A0'' = Some (Val (exp c0))"
       "ols_fit (map (\<lambda>t. ln (val t)) (evaluate_solow_residual (CobbDouglasModel ces_params)
           (map rgdpna ?w) (map rkna ?w) (map emp ?w))) (map real [0..<length ?w]) c0 c1"
    by blast
  from r(1,2,4,5) have v: "b1 = 1" "b0 = 0" "c1 = - 1" "c0 = 0" by simp_all
  have t: "map real [0..<length ?w] = [0, 1, 2]" by (simp add: upt_rec)
  have "ols_fit [0, 1, 2] [0, 1, 2] b0 b1" using r(3) unfolding t by (simp add: obs_def)
  moreover have "ols_fit [0, - 1, - 2] [0, 1, 2] c0 c1"
    using r(6) unfolding t by (simp add: obs_def example_technology)
  ultimately show ?thesis using example_estimates v by auto
qed

subsection \<open>The likelihood objective and the model's parameters\<close>

lemma likelihood_function_model:
  "snd (likelihood_function a m Y K L ls) =
     (if validate_params m (params m ++ array_to_params a)
      then m\<lparr>params := params m ++ array_to_params a\<rparr> else m)"
  by (simp add: likelihood_function_def Let_def split: option.splits)

lemma likelihood_function_value:
  assumes "validate_params m (params m ++ array_to_params a)"
    and "(params m ++ array_to_params a) ''sigma_eps'' = Some e"
  shows "\<exists>v. fst (likelihood_function a m Y K L ls) = Inr v"
  using assms by (simp add: likelihood_function_def Let_def)

text \<open>
  C3, as the code has it: an evaluation of the likelihood objective leaves the model
  with the parameters it had, overridden by the candidate values (unless the model
  refuses them, and then it is unchanged); nothing else of the model changes, and
  the same evaluation repeated returns the same value and the same model.
\<close>

theorem likelihood_function_stores_params:
  "snd (likelihood_function a m Y K L ls) =
     (if validate_params m (params m ++ array_to_params a)
      then m\<lparr>params := params m ++ array_to_params a\<rparr> else m) \<and>
   likelihood_function a (snd (likelihood_function a m Y K L ls)) Y K L ls
     = likelihood_function a m Y K L ls"
proof (cases "validate_params m (params m ++ array_to_params a)")
  case True
  have i: "params m ++ array_to_params a ++ array_to_params a = params m ++ array_to_params a"
    by (rule ext) (simp add: map_add_def split: option.splits)
  have "likelihood_function a (m\<lparr>params := params m ++ array_to_params a\<rparr>) Y K L ls
          = likelihood_function a m Y K L ls"
    using True by (simp add: likelihood_function_def Let_def i)
  with True show ?thesis by (simp add: likelihood_function_model)
next
  case False
  then show ?thesis by (simp add: likelihood_function_model)
qed

theorem likelihood_function_stores_params_witness:
  "snd (likelihood_function
      [Val (2/100), Val (3/100), Val (15/100), Val (1/2), Val (5/100), Val (95/100), Val (1/100)]
      (CobbDouglasModel ces_params) [Val 1] [Val 1] [Val 1] [Val (6/10)])
   = (CobbDouglasModel ces_params)\<lparr>params := ces_params(''alpha'' \<mapsto> Val (1/2))\<rparr>"
proof -
  let ?a = "[Val (2/100), Val (3/100), Val (15/100), Val (1/2), Val (5/100), Val (95/100), Val (1/100)]"
  have v: "validate_params (CobbDouglasModel ces_params)
             (params (CobbDouglasModel ces_params) ++ array_to_params ?a)"
    by (simp add: array_to_params7 CobbDouglasModel_def ces_params_def valid_solow_params_def)
  have e: "params (CobbDouglasModel ces_params) ++ array_to_params ?a = ces_params(''alpha'' \<mapsto> Val (1/2))"
    by (rule ext) (simp add: array_to_params7 CobbDouglasModel_def ces_params_def map_add_def)
  from likelihood_function_stores_params[of ?a "CobbDouglasModel ces_params" "[Val 1]" "[Val 1]" "[Val 1]" "[Val (6/10)]"]
  show ?thesis using v e by simp
qed

text \<open>
  The stored parameters are not the same before and after a call: the model of the
  notebook has \<open>alpha = 0.33\<close>, and after one evaluation at \<open>alpha = 0.5\<close> it has
  \<open>alpha = 0.5\<close>.
\<close>

theorem likelihood_changes_params:
  "params (snd (likelihood_function
      [Val (2/100), Val (3/100), Val (15/100), Val (1/2), Val (5/100), Val (95/100), Val (1/100)]
      (CobbDouglasModel ces_params) [Val 1] [Val 1] [Val 1] [Val (6/10)])) ''alpha'' = Some (Val (1/2)) \<and>
   params (CobbDouglasModel ces_params) ''alpha'' = Some (Val (33/100))"
  by (simp add: likelihood_function_model array_to_params7 CobbDouglasModel_def ces_params_def
      valid_solow_params_def)

subsection \<open>The starting vector of the optimisation\<close>

lemma initial_guess_vector:
  assumes "match_moments m data iso3_code bounds = Inr p"
  shows "\<exists>g n s alpha delta.
           p ''g'' = Some g \<and> p ''n'' = Some n \<and> p ''s'' = Some s \<and>
           p ''alpha'' = Some alpha \<and> p ''delta'' = Some delta \<and>
           cobb_douglas_initial_guess m data iso3_code bounds sigma0 sigma_eps0
             = Inr [g, n, s, alpha, delta, sigma0, sigma_eps0]"
proof -
  from assms obtain frame w where d: "data iso3_code = Some frame"
    and w: "calibration_window required_vars frame bounds = Inr w"
    by (rule match_moments_cases)
  from assms d w obtain res res' where
    r: "pd_ols (map np_log (map emp w)) (linspace (length w)) = Inr res"
       "pd_ols (map np_log (evaluate_solow_residual m (map rgdpna w) (map rkna w) (map emp w)))
           (linspace (length w)) = Inr res'"
    by (rule match_moments_regress)
  from match_moments_unfold[where data=data and iso3_code=iso3_code and m=m, OF d w r] assms
  show ?thesis
    by (auto simp: cobb_douglas_initial_guess_def params_to_array_def)
qed

lemma maximize_likelihood_run:
  assumes "data iso3_code = Some frame"
    and "calibration_window required_vars_ml frame bounds = Inr w"
    and "cobb_douglas_initial_guess m data iso3_code bounds sigma0 sigma_eps0 = Inr x0"
  shows "maximize_likelihood minimize m data iso3_code bounds method sigma0 sigma_eps0 =
     (case minimize (\<lambda>a mdl. likelihood_function a mdl (map rgdpna w) (map rkna w) (map emp w) (map labsh w))
             x0 m method bnds of
        (Inl e, m') \<Rightarrow> (Inl e, m')
      | (Inr result, m') \<Rightarrow>
          if success result then
            (case w of
               [] \<Rightarrow> (Inl IndexError, m')
             | r0 # _ \<Rightarrow>
                 (Inr (Estimated result
                    ((array_to_params (res_x result))
                       (''A0'' \<mapsto> solow_residual m (params m) (rgdpna r0) (rkna r0) (emp r0),
                        ''L0'' \<mapsto> emp r0, ''K0'' \<mapsto> rkna r0))), m'))
          else (Inr (NotConverged result), m'))"
proof (cases w)
  case Nil
  with assms show ?thesis
    by (simp add: maximize_likelihood_def Let_def evaluate_solow_residual_def
        split: prod.splits sum.splits)
next
  case (Cons r0 rs)
  with assms show ?thesis
    by (simp add: maximize_likelihood_def Let_def evaluate_solow_residual_def
        split: prod.splits sum.splits)
qed

lemma example_window_ml:
  "calibration_window required_vars_ml example_frame None =
     Inr [obs 2000 (Val 1) (Val (1/4)), obs 2001 (Val (exp 1)) (Val (1/2)),
      obs 2002 (Val (exp 2)) (Val (3/4))]"
  by (simp add: calibration_window_def dropna_def required_vars_ml_def example_frame_def column_def obs_def loc_def)

text \<open>
  C8: the starting vector is \<open>[g, n, s, alpha, delta, sigma0, sigma_eps0]\<close> with the first
  five entries from \<open>match_moments\<close>, and the optimisation is started from it: what
  \<open>maximize_likelihood\<close> returns is decided by the one run of the optimiser on the
  likelihood of the window's data with this vector as \<open>x0\<close>.
\<close>

theorem initial_guess_seeds_optimizer:
  assumes "match_moments m data iso3_code bounds = Inr p"
    and "data iso3_code = Some frame"
    and "calibration_window required_vars_ml frame bounds = Inr w"
  shows "\<exists>g n s alpha delta.
           p ''g'' = Some g \<and> p ''n'' = Some n \<and> p ''s'' = Some s \<and>
           p ''alpha'' = Some alpha \<and> p ''delta'' = Some delta \<and>
           cobb_douglas_initial_guess m data iso3_code bounds sigma0 sigma_eps0
             = Inr [g, n, s, alpha, delta, sigma0, sigma_eps0] \<and>
           maximize_likelihood minimize m data iso3_code bounds method sigma0 sigma_eps0 =
             (case minimize (\<lambda>a mdl. likelihood_function a mdl (map rgdpna w) (map rkna w)
                                (map emp w) (map labsh w))
                     [g, n, s, alpha, delta, sigma0, sigma_eps0] m method bnds of
                (Inl e, m') \<Rightarrow> (Inl e, m')
              | (Inr result, m') \<Rightarrow>
                  if success result then
                    (case w of
                       [] \<Rightarrow> (Inl IndexError, m')
                     | r0 # _ \<Rightarrow>
                         (Inr (Estimated result
                            ((array_to_params (res_x result))
                               (''A0'' \<mapsto> solow_residual m (params m) (rgdpna r0) (rkna r0) (emp r0),
                                ''L0'' \<mapsto> emp r0, ''K0'' \<mapsto> rkna r0))), m'))
                  else (Inr (NotConverged result), m'))"
proof -
  from initial_guess_vector[OF assms(1), of sigma0 sigma_eps0] obtain g n s alpha delta where
    g: "p ''g'' = Some g" "p ''n'' = Some n" "p ''s'' = Some s"
       "p ''alpha'' = Some alpha" "p ''delta'' = Some delta"
       "cobb_douglas_initial_guess m data iso3_code bounds sigma0 sigma_eps0
             = Inr [g, n, s, alpha, delta, sigma0, sigma_eps0]"
    by blast
  note run = maximize_likelihood_run[where data=data and iso3_code=iso3_code and minimize=minimize,
      OF assms(2,3) g(6)]
  show ?thesis
    by (intro exI conjI) (rule g run)+
qed

theorem initial_guess_seeds_optimizer_witness:
  "cobb_douglas_initial_guess (CobbDouglasModel ces_params) example_panel ''USA'' None
       (Val (101/100)) (Val (1/100))
     = Inr [Val (- 1), Val 1, Val (1/4), Val (1/2), Val (1/16), Val (101/100), Val (1/100)] \<and>
   maximize_likelihood stalled_optimizer (CobbDouglasModel ces_params) example_panel ''USA'' None
       ''BFGS'' (Val (101/100)) (Val (1/100))
     = (Inr (NotConverged \<lparr>success = False,
           res_x = [Val (- 1), Val 1, Val (1/4), Val (1/2), Val (1/16), Val (101/100), Val (1/100)],
           message = ''Maximum number of iterations has been exceeded.''\<rparr>),
        CobbDouglasModel ces_params)"
proof -
  let ?x0 = "[Val (- 1), Val 1, Val (1/4), Val (1/2), Val (1/16), Val (101/100), Val (1/100)]"
  let ?M = "CobbDouglasModel ces_params"
  let ?w = "[obs 2000 (Val 1) (Val (1/4)), obs 2001 (Val (exp 1)) (Val (1/2)),
      obs 2002 (Val (exp 2)) (Val (3/4))]"
  let ?p = "[''s'' \<mapsto> Val (1/4), ''alpha'' \<mapsto> Val (1/2), ''delta'' \<mapsto> Val (1/16), ''n'' \<mapsto> Val 1,
          ''L0'' \<mapsto> Val 1, ''g'' \<mapsto> Val (-1), ''A0'' \<mapsto> Val 1]"
  from initial_guess_seeds_optimizer[where data=example_panel and ?iso3_code="''USA''"
      and minimize=stalled_optimizer and ?sigma0.0="Val (101/100)"
      and ?sigma_eps0.0="Val (1/100)",
      OF example_estimates example_lookup example_window_ml, of "''BFGS''"]
  obtain g n s alpha delta where
    v: "?p ''g'' = Some g" "?p ''n'' = Some n" "?p ''s'' = Some s"
       "?p ''alpha'' = Some alpha" "?p ''delta'' = Some delta"
    and x: "cobb_douglas_initial_guess ?M example_panel ''USA'' None (Val (101/100)) (Val (1/100))
             = Inr [g, n, s, alpha, delta, Val (101/100), Val (1/100)]"
    and r: "maximize_likelihood stalled_optimizer ?M example_panel ''USA'' None ''BFGS''
               (Val (101/100)) (Val (1/100)) =
             (case stalled_optimizer (\<lambda>a mdl. likelihood_function a mdl (map rgdpna ?w) (map rkna ?w)
                                (map emp ?w) (map labsh ?w))
                     [g, n, s, alpha, delta, Val (101/100), Val (1/100)] ?M ''BFGS'' bnds of
                (Inl e, m') \<Rightarrow> (Inl e, m')
              | (Inr result, m') \<Rightarrow>
                  if success result then
                    (case ?w of
                       [] \<Rightarrow> (Inl IndexError, m')
                     | r0 # _ \<Rightarrow>
                         (Inr (Estimated result
                            ((array_to_params (res_x result))
                               (''A0'' \<mapsto> solow_residual ?M (params ?M) (rgdpna r0) (rkna r0) (emp r0),
                                ''L0'' \<mapsto> emp r0, ''K0'' \<mapsto> rkna r0))), m'))
                  else (Inr (NotConverged result), m'))"
    by blast
  from v have e: "g = Val (- 1)" "n = Val 1" "s = Val (1/4)" "alpha = Val (1/2)" "delta = Val (1/16)"
    by simp_all
  from x have 1: "cobb_douglas_initial_guess ?M example_panel ''USA'' None (Val (101/100)) (Val (1/100))
             = Inr ?x0"
    unfolding e .
  from r have 2: "maximize_likelihood stalled_optimizer ?M example_panel ''USA'' None ''BFGS''
               (Val (101/100)) (Val (1/100))
      = (Inr (NotConverged \<lparr>success = False, res_x = ?x0,
           message = ''Maximum number of iterations has been exceeded.''\<rparr>), ?M)"
    unfolding e by (simp add: stalled_optimizer_def)
  from 1 2 show ?thesis by blast
qed

subsection \<open>The outcome of the optimisation\<close>

text \<open>
  C9: the outcome of \<open>maximize_likelihood\<close> is that of the one run of the optimiser
  from the starting vector.  Without success the result of that run is returned alone;
  with success (on a window that is not empty) it is returned with the estimates, to
  which \<open>A0\<close>, \<open>L0\<close> and \<open>K0\<close> of the first observation are added.
\<close>

theorem maximize_likelihood_outcome:
  assumes d: "data iso3_code = Some frame"
    and w: "calibration_window required_vars_ml frame bounds = Inr w"
    and g: "cobb_douglas_initial_guess m data iso3_code bounds sigma0 sigma_eps0 = Inr x0"
    and r: "minimize (\<lambda>a mdl. likelihood_function a mdl (map rgdpna w) (map rkna w) (map emp w) (map labsh w))
              x0 m method bnds = (Inr result, m')"
  shows "(\<not> success result \<longrightarrow>
            maximize_likelihood minimize m data iso3_code bounds method sigma0 sigma_eps0
              = (Inr (NotConverged result), m')) \<and>
         (success result \<and> w \<noteq> [] \<longrightarrow>
            maximize_likelihood minimize m data iso3_code bounds method sigma0 sigma_eps0
              = (Inr (Estimated result
                   ((array_to_params (res_x result))
                      (''A0'' \<mapsto> solow_residual m (params m) (rgdpna (hd w)) (rkna (hd w)) (emp (hd w)),
                       ''L0'' \<mapsto> emp (hd w), ''K0'' \<mapsto> rkna (hd w)))), m'))"
proof (cases w)
  case Nil
  with d w g r show ?thesis by (simp add: maximize_likelihood_def Let_def)
next
  case (Cons r0 rs)
  with d w g r show ?thesis
    by (simp add: maximize_likelihood_def Let_def evaluate_solow_residual_def)
qed

theorem maximize_likelihood_outcome_witness:
  "maximize_likelihood stalled_optimizer (CobbDouglasModel ces_params) example_panel ''USA'' None
       ''BFGS'' (Val (101/100)) (Val (1/100))
     = (Inr (NotConverged \<lparr>success = False,
           res_x = [Val (- 1), Val 1, Val (1/4), Val (1/2), Val (1/16), Val (101/100), Val (1/100)],
           message = ''Maximum number of iterations has been exceeded.''\<rparr>),
        CobbDouglasModel ces_params) \<and>
   (\<exists>r ps m'. maximize_likelihood one_step_optimizer (CobbDouglasModel ces_params) example_panel ''USA'' None
       ''BFGS'' (Val (101/100)) (Val (1/100)) = (Inr (Estimated r ps), m') \<and>
       success r \<and> ps ''A0'' = Some (Val 1) \<and> ps ''L0'' = Some (Val 1) \<and> ps ''K0'' = Some (Val 1) \<and>
       ps ''alpha'' = Some (Val (1/2)) \<and> ps ''sigma'' = Some (Val (101/100)))"
proof -
  let ?x0 = "[Val (- 1), Val 1, Val (1/4), Val (1/2), Val (1/16), Val (101/100), Val (1/100)]"
  let ?M = "CobbDouglasModel ces_params"
  let ?w = "[obs 2000 (Val 1) (Val (1/4)), obs 2001 (Val (exp 1)) (Val (1/2)),
      obs 2002 (Val (exp 2)) (Val (3/4))]"
  let ?f = "\<lambda>a mdl. likelihood_function a mdl (map rgdpna ?w) (map rkna ?w) (map emp ?w) (map labsh ?w)"
  let ?r0 = "\<lparr>success = False, res_x = ?x0, message = ''Maximum number of iterations has been exceeded.''\<rparr>"
  let ?r1 = "\<lparr>success = True, res_x = ?x0, message = ''Optimization terminated successfully.''\<rparr>"
  have g: "cobb_douglas_initial_guess ?M example_panel ''USA'' None (Val (101/100)) (Val (1/100)) = Inr ?x0"
    by (simp add: cobb_douglas_initial_guess_def example_estimates params_to_array_def)
  have s0: "stalled_optimizer ?f ?x0 ?M ''BFGS'' bnds = (Inr ?r0, ?M)"
    by (simp add: stalled_optimizer_def)
  have v: "validate_params ?M (params ?M ++ array_to_params ?x0)"
    by (simp add: array_to_params7 CobbDouglasModel_def ces_params_def valid_solow_params_def)
  have e: "(params ?M ++ array_to_params ?x0) ''sigma_eps'' = Some (Val (1/100))"
    by (simp add: array_to_params7)
  obtain val1 where "fst (?f ?x0 ?M) = Inr val1"
    using likelihood_function_value[OF v e] by blast
  then obtain m1 where "?f ?x0 ?M = (Inr val1, m1)" by (cases "?f ?x0 ?M") auto
  then have s1: "one_step_optimizer ?f ?x0 ?M ''BFGS'' bnds = (Inr ?r1, m1)"
    by (simp add: one_step_optimizer_def)
  have ne: "?w \<noteq> []" by simp
  from maximize_likelihood_outcome[where data=example_panel and ?iso3_code="''USA''"
      and minimize=stalled_optimizer and m="?M" and w="?w" and result="?r0" and m'="?M",
      OF example_lookup example_window_ml g s0]
  have a: "maximize_likelihood stalled_optimizer ?M example_panel ''USA'' None
       ''BFGS'' (Val (101/100)) (Val (1/100)) = (Inr (NotConverged ?r0), ?M)"
    by simp
  from maximize_likelihood_outcome[where data=example_panel and ?iso3_code="''USA''"
      and minimize=one_step_optimizer and m="?M" and w="?w" and result="?r1" and m'=m1,
      OF example_lookup example_window_ml g s1] ne
  have b: "maximize_likelihood one_step_optimizer ?M example_panel ''USA'' None
       ''BFGS'' (Val (101/100)) (Val (1/100))
      = (Inr (Estimated ?r1 ((array_to_params (res_x ?r1))
                      (''A0'' \<mapsto> solow_residual ?M (params ?M) (rgdpna (hd ?w)) (rkna (hd ?w)) (emp (hd ?w)),
                       ''L0'' \<mapsto> emp (hd ?w), ''K0'' \<mapsto> rkna (hd ?w)))), m1)"
    by simp
  have c: "solow_residual ?M (params ?M) (rgdpna (hd ?w)) (rkna (hd ?w)) (emp (hd ?w)) = Val 1"
    by (simp add: CobbDouglasModel_def ces_params_def cobb_douglas_residual_def obs_def)
  show ?thesis
    unfolding a b c by (simp add: array_to_params7 obs_def)
qed

end
